theory Spec2Isabelle
  imports Main
begin

section \<open>Exceptions\<close>

text \<open>
  Every exception the modelled code can raise is a value. The constructors that stand for
  a \<^verbatim>\<open>RuntimeError\<close> or \<^verbatim>\<open>ValueError\<close> built by the repository carry the data that
  the source interpolates into the message (URL, HTTP status, body excerpt, key list)
  instead of the formatted message text.
\<close>

datatype error =
    EmptyToken                        \<comment> \<open>ValueError: the token is empty (\<^verbatim>\<open>decode_jwt\<close>)\<close>
  | JWTDecodeFailed                   \<comment> \<open>ValueError: any exception inside \<^verbatim>\<open>decode_jwt\<close>'s try block\<close>
  | NoAccessToken                     \<comment> \<open>RuntimeError: no access token\<close>
  | NoRefreshToken                    \<comment> \<open>RuntimeError: no refresh token\<close>
  | NoCredentials                     \<comment> \<open>RuntimeError: no email or password\<close>
  | RefreshFailed int string          \<comment> \<open>RuntimeError: Refresh failed: HTTP status - text[:200]\<close>
  | RefreshNetworkError               \<comment> \<open>RuntimeError: Network error during refresh\<close>
  | RefreshWithoutAccess "string list" \<comment> \<open>RuntimeError: Refresh response without 'access': keys\<close>
  | LoginFailed int string            \<comment> \<open>RuntimeError: Login failed: HTTP status - text[:200]\<close>
  | LoginNetworkError                 \<comment> \<open>RuntimeError: Network error during login\<close>
  | LoginUnexpectedKeys "string list" \<comment> \<open>RuntimeError: Unexpected login response keys\<close>
  | GetFailed string int string       \<comment> \<open>RuntimeError: GET url failed: HTTP status - text[:200]\<close>
  | GetRetryFailed string int string  \<comment> \<open>RuntimeError: GET(retry) url failed: HTTP status - text[:200]\<close>
  | ClientError                       \<comment> \<open>aiohttp.ClientError raised by the transport\<close>
  | JSONDecodeError                   \<comment> \<open>the body of a response is not JSON\<close>
  | PyTypeError
  | PyValueError
  | PyAttributeError
  | PyOverflowError
  | ZoneInfoNotFoundError

text \<open>
  Sequencing of computations that may raise: the first exception ends the computation.
\<close>

definition and_then :: "error + 'a \<Rightarrow> ('a \<Rightarrow> error + 'b) \<Rightarrow> error + 'b" where
  "and_then r f = (case r of Inl e \<Rightarrow> Inl e | Inr v \<Rightarrow> f v)"

section \<open>Dates, aware datetimes and time zones\<close>

text \<open>
  A \<^verbatim>\<open>datetime.date\<close> has the fields year, month and day. An aware \<^verbatim>\<open>datetime\<close> is
  kept as its wall-clock reading, in microseconds since 0001-01-01T00:00:00 of its own
  zone, together with the zone. A \<^verbatim>\<open>timedelta\<close> is a number of microseconds. A zone
  (\<^verbatim>\<open>tzinfo\<close>) is its \<^verbatim>\<open>utcoffset\<close>: the offset from UTC, in microseconds, at a wall-clock
  reading (with \<^verbatim>\<open>fold = 0\<close>, the only value this program ever produces).
\<close>

record date =
  year :: int
  month :: int
  day :: int

type_synonym timedelta = int

type_synonym tzinfo = "int \<Rightarrow> timedelta"

record datetime =
  wall :: int
  tz :: tzinfo

definition US_PER_MS :: int where "US_PER_MS = 1000"
definition US_PER_SECOND :: int where "US_PER_SECOND = 1000000"
definition US_PER_HOUR :: int where "US_PER_HOUR = 3600000000"
definition US_PER_DAY :: int where "US_PER_DAY = 86400000000"
definition MAXORDINAL :: int where "MAXORDINAL = 3652059"

definition is_leap :: "int \<Rightarrow> bool" where
  "is_leap y = (y mod 4 = 0 \<and> (y mod 100 \<noteq> 0 \<or> y mod 400 = 0))"

definition days_before_year :: "int \<Rightarrow> int" where
  "days_before_year y = (y - 1) * 365 + (y - 1) div 4 - (y - 1) div 100 + (y - 1) div 400"

definition days_in_month :: "int \<Rightarrow> int \<Rightarrow> int" where
  "days_in_month y m =
     (if m = 2 then (if is_leap y then 29 else 28)
      else if m = 4 \<or> m = 6 \<or> m = 9 \<or> m = 11 then 30 else 31)"

definition days_before_month :: "int \<Rightarrow> int \<Rightarrow> int" where
  "days_before_month y m =
     [0, 31, 59, 90, 120, 151, 181, 212, 243, 273, 304, 334] ! nat (m - 1)
       + (if m > 2 \<and> is_leap y then 1 else 0)"

definition valid_date :: "date \<Rightarrow> bool" where
  "valid_date d \<longleftrightarrow>
     1 \<le> year d \<and> year d \<le> 9999 \<and> 1 \<le> month d \<and> month d \<le> 12 \<and>
     1 \<le> day d \<and> day d \<le> days_in_month (year d) (month d)"

definition toordinal :: "date \<Rightarrow> int" where
  "toordinal d = days_before_year (year d) + days_before_month (year d) (month d) + day d"

text \<open>
  The date that \<^verbatim>\<open>d + timedelta(days=1)\<close> denotes is the date whose ordinal is one more
  than that of \<open>d\<close>.
\<close>

definition next_day :: "date \<Rightarrow> date \<Rightarrow> bool" where
  "next_day d d' \<longleftrightarrow> valid_date d \<and> valid_date d' \<and> toordinal d' = toordinal d + 1"

definition utc :: tzinfo where
  "utc = (\<lambda>_. 0)"

text \<open>\<^verbatim>\<open>timezone(timedelta(...))\<close>: a fixed offset.\<close>

definition timezone :: "timedelta \<Rightarrow> tzinfo" where
  "timezone off = (\<lambda>_. off)"

text \<open>\<^verbatim>\<open>datetime(y, m, d, 0, 0, 0, tzinfo=z)\<close>; an invalid date raises ValueError.\<close>

definition datetime_midnight :: "date \<Rightarrow> tzinfo \<Rightarrow> error + datetime" where
  "datetime_midnight d z =
     (if valid_date d then Inr \<lparr>wall = (toordinal d - 1) * US_PER_DAY, tz = z\<rparr>
      else Inl PyValueError)"

text \<open>
  \<^verbatim>\<open>dt + delta\<close> on an aware datetime is wall-clock arithmetic in the same zone; a result
  outside 0001-01-01 .. 9999-12-31 raises OverflowError.
\<close>

definition dt_add :: "datetime \<Rightarrow> timedelta \<Rightarrow> error + datetime" where
  "dt_add dt delta =
     (let w = wall dt + delta
      in if 0 \<le> w \<and> w < MAXORDINAL * US_PER_DAY then Inr (dt\<lparr>wall := w\<rparr>)
         else Inl PyOverflowError)"

text \<open>
  \<^verbatim>\<open>dt.astimezone(timezone.utc)\<close>: subtract the zone's offset at the wall-clock reading.
  An offset that is not strictly between -24h and 24h raises ValueError, a result out of
  range OverflowError.
\<close>

definition astimezone_utc :: "datetime \<Rightarrow> error + datetime" where
  "astimezone_utc dt =
     (let off = tz dt (wall dt)
      in if \<not> (- US_PER_DAY < off \<and> off < US_PER_DAY) then Inl PyValueError
         else (case dt_add dt (- off) of
                 Inl e \<Rightarrow> Inl e
               | Inr r \<Rightarrow> Inr (r\<lparr>tz := utc\<rparr>)))"

section \<open>time\_utils.py\<close>

text \<open>
  The module \<^verbatim>\<open>zoneinfo\<close> is not part of the repository: it is a parameter. \<open>None\<close> is
  the failed import (\<^verbatim>\<open>ZoneInfo = None\<close>); otherwise the constructor \<^verbatim>\<open>ZoneInfo(key)\<close>,
  which gives a zone or raises when the key is unknown.
\<close>

type_synonym zoneinfo = "(string \<Rightarrow> tzinfo option) option"

definition euwarsaw :: "zoneinfo \<Rightarrow> error + tzinfo" where
  "euwarsaw ZoneInfo =
     (case ZoneInfo of
        Some Z \<Rightarrow> (case Z ''Europe/Warsaw'' of
                     Some z \<Rightarrow> Inr z
                   | None \<Rightarrow> Inl ZoneInfoNotFoundError)
      | None \<Rightarrow> Inr (timezone (1 * US_PER_HOUR)))"

definition local_day_window_utc :: "zoneinfo \<Rightarrow> date \<Rightarrow> error + (datetime \<times> datetime)" where
  "local_day_window_utc ZoneInfo d =
     and_then (euwarsaw ZoneInfo) (\<lambda>z.
     and_then (datetime_midnight d z) (\<lambda>start_local.
     and_then (dt_add start_local (1 * US_PER_DAY)) (\<lambda>end_local.
     and_then (astimezone_utc start_local) (\<lambda>start_utc.
     and_then (astimezone_utc end_local) (\<lambda>end_utc.
     Inr (start_utc, end_utc))))))"

definition local_day_window_utc_ms :: "zoneinfo \<Rightarrow> date \<Rightarrow> error + (datetime \<times> datetime)" where
  "local_day_window_utc_ms ZoneInfo d =
     and_then (euwarsaw ZoneInfo) (\<lambda>z.
     and_then (datetime_midnight d z) (\<lambda>start_local.
     and_then (dt_add start_local (1 * US_PER_DAY)) (\<lambda>t.
     and_then (dt_add t (- (1 * US_PER_MS))) (\<lambda>end_local.
     and_then (astimezone_utc start_local) (\<lambda>start_utc.
     and_then (astimezone_utc end_local) (\<lambda>end_utc.
     Inr (start_utc, end_utc)))))))"

text \<open>
  Two zones for concrete evaluation. \<open>warsaw_2025\<close> has the offsets of Europe/Warsaw in
  the year 2025: UTC+2 for wall-clock readings from 2025-03-30T03:00 up to 2025-10-26T03:00,
  UTC+1 otherwise. \<open>warsaw_1945\<close> has those around the end of summer time in 1945, when
  the clocks went back at local midnight of 1945-11-01: UTC+2 for readings before
  1945-11-01T00:00, UTC+1 from then on.
\<close>

definition warsaw_2025 :: tzinfo where
  "warsaw_2025 w =
     (if (739340 - 1) * US_PER_DAY + 3 * US_PER_HOUR \<le> w
         \<and> w < (739550 - 1) * US_PER_DAY + 3 * US_PER_HOUR
      then 2 * US_PER_HOUR else 1 * US_PER_HOUR)"



section \<open>Strings\<close>

text \<open>
  A Python \<^verbatim>\<open>str\<close> is a \<^typ>\<open>string\<close>, one \<^typ>\<open>char\<close> for each character: the model
  has the strings whose characters are below U+0100. The helpers below are the string
  operations of the standard library that the repository calls.
\<close>

definition digit_char :: "nat \<Rightarrow> char" where
  "digit_char n = ''0123456789'' ! (n mod 10)"

fun str_of_nat :: "nat \<Rightarrow> string" where
  "str_of_nat n = (if n < 10 then [digit_char n] else str_of_nat (n div 10) @ [digit_char n])"

text \<open>\<^verbatim>\<open>str(n)\<close> for an \<^verbatim>\<open>int\<close>.\<close>

definition str_of_int :: "int \<Rightarrow> string" where
  "str_of_int i = (if i < 0 then CHR ''-'' # str_of_nat (nat (- i)) else str_of_nat (nat i))"

text \<open>\<^verbatim>\<open>"%0kd" % n\<close> for a non-negative \<open>n\<close>.\<close>

definition zero_pad :: "nat \<Rightarrow> int \<Rightarrow> string" where
  "zero_pad k n = (let s = str_of_int n in replicate (k - length s) CHR ''0'' @ s)"

text \<open>
  \<^verbatim>\<open>s.replace(old, new)\<close>: the occurrences of \<open>old\<close> are replaced from left to right,
  without overlap. With an empty \<open>old\<close>, \<open>new\<close> is put before every character and at the
  end.
\<close>

function str_replace :: "string \<Rightarrow> string \<Rightarrow> string \<Rightarrow> string" where
  "str_replace old new s =
     (if old = [] then new @ concat (map (\<lambda>c. c # new) s)
      else if s = [] then []
      else if take (length old) s = old then new @ str_replace old new (drop (length old) s)
      else hd s # str_replace old new (tl s))"
  by pat_completeness auto
termination
  by (relation "measure (\<lambda>(old, new, s). length s)") (auto simp: neq_Nil_conv)

text \<open>\<^verbatim>\<open>s.split(c)\<close> for a one-character separator.\<close>

fun split_on :: "char \<Rightarrow> string \<Rightarrow> string list" where
  "split_on c [] = [[]]"
| "split_on c (x # xs) =
     (if x = c then [] # split_on c xs
      else (case split_on c xs of p # ps \<Rightarrow> (x # p) # ps | [] \<Rightarrow> [[x]]))"

text \<open>\<^verbatim>\<open>s.rstrip(c)\<close>, \<^verbatim>\<open>s.strip(c)\<close> and \<^verbatim>\<open>sep.join(parts)\<close>.\<close>

definition rstrip :: "char \<Rightarrow> string \<Rightarrow> string" where
  "rstrip c s = rev (dropWhile (\<lambda>x. x = c) (rev s))"

definition strip :: "char \<Rightarrow> string \<Rightarrow> string" where
  "strip c s = rstrip c (dropWhile (\<lambda>x. x = c) s)"

fun join :: "string \<Rightarrow> string list \<Rightarrow> string" where
  "join sep [] = []"
| "join sep [p] = p"
| "join sep (p # q # ps) = p @ sep @ join sep (q # ps)"

definition endswith :: "string \<Rightarrow> string \<Rightarrow> bool" where
  "endswith s suf = (length suf \<le> length s \<and> drop (length s - length suf) s = suf)"

text \<open>
  \<^verbatim>\<open>urllib.parse.quote_plus\<close>: letters, digits and \<^verbatim>\<open>_.-~\<close> stay, a space becomes
  \<^verbatim>\<open>+\<close>, and every other character is encoded in UTF-8 and each of its bytes becomes
  \<^verbatim>\<open>%XX\<close>: one byte for a character below U+0080, the two bytes \<^verbatim>\<open>110xxxxx 10xxxxxx\<close>
  for a character from U+0080 to U+00FF.
\<close>

definition is_unreserved :: "char \<Rightarrow> bool" where
  "is_unreserved c \<longleftrightarrow>
     (let n = of_char c :: nat
      in (65 \<le> n \<and> n \<le> 90) \<or> (97 \<le> n \<and> n \<le> 122) \<or> (48 \<le> n \<and> n \<le> 57)
         \<or> c = CHR ''_'' \<or> c = CHR ''.'' \<or> c = CHR ''-'' \<or> c = CHR ''~'')"

definition hex_char :: "nat \<Rightarrow> char" where
  "hex_char n = ''0123456789ABCDEF'' ! (n mod 16)"

definition percent_byte :: "nat \<Rightarrow> string" where
  "percent_byte b = [CHR ''%'', hex_char (b div 16), hex_char b]"

definition utf8_bytes :: "char \<Rightarrow> nat list" where
  "utf8_bytes c =
     (let n = of_char c :: nat
      in if n < 128 then [n] else [192 + n div 64, 128 + n mod 64])"

definition quote_char :: "char \<Rightarrow> string" where
  "quote_char c =
     (if is_unreserved c then [c]
      else if c = CHR '' '' then ''+''
      else concat (map percent_byte (utf8_bytes c)))"

definition quote_plus :: "string \<Rightarrow> string" where
  "quote_plus s = concat (map quote_char s)"

section \<open>Rendering a datetime\<close>

text \<open>The calendar date of a day number, as \<^verbatim>\<open>date.fromordinal\<close> computes it.\<close>

definition ord2ymd :: "int \<Rightarrow> int \<times> int \<times> int" where
  "ord2ymd n0 =
     (let n = n0 - 1;
          n400 = n div 146097; n = n mod 146097;
          n100 = n div 36524; n = n mod 36524;
          n4 = n div 1461; n = n mod 1461;
          n1 = n div 365; n = n mod 365;
          y = n400 * 400 + 1 + n100 * 100 + n4 * 4 + n1
      in if n1 = 4 \<or> n100 = 4 then (y - 1, 12, 31)
         else
           (let leapyear = (n1 = 3 \<and> (n4 \<noteq> 24 \<or> n100 = 3));
                m = (n + 50) div 32;
                preceding = days_before_month 1 m + (if m > 2 \<and> leapyear then 1 else 0)
            in if preceding > n
               then (let m' = m - 1;
                         preceding' = preceding
                           - (days_in_month 1 m' + (if m' = 2 \<and> leapyear then 1 else 0))
                     in (y, m', n - preceding' + 1))
               else (y, m, n - preceding + 1)))"

text \<open>
  The UTC offset as \<^verbatim>\<open>isoformat\<close> prints it: sign, hours and minutes, then seconds and
  microseconds when they are not zero.
\<close>

definition format_offset :: "timedelta \<Rightarrow> string" where
  "format_offset off =
     (let a = \<bar>off\<bar>;
          hh = a div US_PER_HOUR;
          mm = (a div (60 * US_PER_SECOND)) mod 60;
          ss = (a div US_PER_SECOND) mod 60;
          us = a mod US_PER_SECOND
      in (if off < 0 then ''-'' else ''+'') @ zero_pad 2 hh @ '':'' @ zero_pad 2 mm
         @ (if ss \<noteq> 0 \<or> us \<noteq> 0 then '':'' @ zero_pad 2 ss else [])
         @ (if us \<noteq> 0 then ''.'' @ zero_pad 6 us else []))"

text \<open>
  \<^verbatim>\<open>YYYY-MM-DDTHH:MM:SS\<close> of a wall-clock reading given in whole seconds since
  0001-01-01T00:00:00.
\<close>

definition format_seconds :: "int \<Rightarrow> string" where
  "format_seconds secs =
     (let (y, m, d) = ord2ymd (secs div 86400 + 1);
          r = secs mod 86400
      in zero_pad 4 y @ ''-'' @ zero_pad 2 m @ ''-'' @ zero_pad 2 d @ ''T''
         @ zero_pad 2 (r div 3600) @ '':'' @ zero_pad 2 ((r div 60) mod 60) @ '':''
         @ zero_pad 2 (r mod 60))"

text \<open>
  \<^verbatim>\<open>dt.isoformat()\<close> of an aware datetime: date and time, the microseconds when they are
  not zero, and the UTC offset. An improper offset raises ValueError.
\<close>

definition isoformat :: "datetime \<Rightarrow> error + string" where
  "isoformat dt =
     (let off = tz dt (wall dt); us = wall dt mod US_PER_SECOND
      in if \<not> (- US_PER_DAY < off \<and> off < US_PER_DAY) then Inl PyValueError
         else Inr (format_seconds (wall dt div US_PER_SECOND)
                   @ (if us \<noteq> 0 then ''.'' @ zero_pad 6 us else [])
                   @ format_offset off))"

text \<open>\<^verbatim>\<open>dt.replace(microsecond=0)\<close>.\<close>

definition replace_microsecond_0 :: "datetime \<Rightarrow> datetime" where
  "replace_microsecond_0 dt = dt\<lparr>wall := wall dt - wall dt mod US_PER_SECOND\<rparr>"

section \<open>Values decoded from JSON\<close>

text \<open>
  The values that \<^verbatim>\<open>json.loads\<close> and \<^verbatim>\<open>resp.json()\<close> produce: \<^verbatim>\<open>None\<close>, booleans,
  integers, floats, strings, lists and dictionaries. Python floats are IEEE doubles; they
  are kept abstract as the type parameter \<open>'f\<close>, and the operations of the Python runtime
  that the repository relies on and that depend on them, or on libraries outside of it,
  are the fields of a record that every function of the model takes as its first
  argument.
\<close>

datatype 'f json =
    JNull
  | JBool bool
  | JInt int
  | JFloat 'f
  | JStr string
  | JArr "'f json list"
  | JObj "(string \<times> 'f json) list"

record 'f pylib =
  json_loads_b64 :: "string \<Rightarrow> 'f json option"
    \<comment> \<open>\<^verbatim>\<open>json.loads(base64.urlsafe_b64decode(s).decode("utf-8"))\<close>; \<open>None\<close> when one of
        the three calls raises\<close>
  float_of_int :: "int \<Rightarrow> 'f option"
    \<comment> \<open>\<^verbatim>\<open>float(n)\<close> for an integer; \<open>None\<close> is OverflowError\<close>
  float_of_str :: "string \<Rightarrow> 'f option"
    \<comment> \<open>\<^verbatim>\<open>float(s)\<close> for a string; \<open>None\<close> is ValueError\<close>
  float_bool :: "'f \<Rightarrow> bool"
    \<comment> \<open>\<^verbatim>\<open>bool(x)\<close> for a float: false for zero\<close>
  py_repr :: "'f json \<Rightarrow> string"
    \<comment> \<open>\<^verbatim>\<open>repr(v)\<close>, used for floats, lists and dictionaries\<close>
  zero_float :: "'f"
    \<comment> \<open>the float literal \<^verbatim>\<open>0.0\<close>\<close>
  float_timestamp :: "'f \<Rightarrow> error + int"
    \<comment> \<open>\<^verbatim>\<open>datetime.fromtimestamp(x, tz=timezone.utc)\<close> for a float, in microseconds since
        0001-01-01T00:00:00 UTC, or the exception it raises\<close>

text \<open>Truth value of a value, as \<^verbatim>\<open>not v\<close>, \<^verbatim>\<open>v or w\<close> and \<^verbatim>\<open>bool(v)\<close> take it.\<close>

definition truthy :: "'f pylib \<Rightarrow> 'f json \<Rightarrow> bool" where
  "truthy L v =
     (case v of
        JNull \<Rightarrow> False
      | JBool b \<Rightarrow> b
      | JInt n \<Rightarrow> n \<noteq> 0
      | JFloat x \<Rightarrow> float_bool L x
      | JStr s \<Rightarrow> s \<noteq> []
      | JArr xs \<Rightarrow> xs \<noteq> []
      | JObj kvs \<Rightarrow> kvs \<noteq> [])"

text \<open>\<^verbatim>\<open>a or b\<close>.\<close>

definition py_or :: "'f pylib \<Rightarrow> 'f json \<Rightarrow> 'f json \<Rightarrow> 'f json" where
  "py_or L a b = (if truthy L a then a else b)"

text \<open>
  \<^verbatim>\<open>d.get(key, default)\<close>: only a dictionary has the method, every other value raises
  AttributeError.
\<close>

definition as_dict :: "'f json \<Rightarrow> error + (string \<times> 'f json) list" where
  "as_dict d = (case d of JObj kvs \<Rightarrow> Inr kvs | _ \<Rightarrow> Inl PyAttributeError)"

definition lookup :: "(string \<times> 'f json) list \<Rightarrow> string \<Rightarrow> 'f json \<Rightarrow> 'f json" where
  "lookup kvs k dflt = (case map_of kvs k of Some v \<Rightarrow> v | None \<Rightarrow> dflt)"

definition py_get :: "'f json \<Rightarrow> string \<Rightarrow> 'f json \<Rightarrow> error + 'f json" where
  "py_get d k dflt = and_then (as_dict d) (\<lambda>kvs. Inr (lookup kvs k dflt))"

text \<open>\<^verbatim>\<open>list(d.keys())\<close>.\<close>

definition py_keys :: "'f json \<Rightarrow> error + string list" where
  "py_keys d = and_then (as_dict d) (\<lambda>kvs. Inr (map fst kvs))"

text \<open>
  Iteration, as a \<^verbatim>\<open>for\<close> loop or a comprehension performs it: a list gives its items, a
  string its characters, a dictionary its keys; the other values raise TypeError.
\<close>

definition py_iter :: "'f json \<Rightarrow> error + 'f json list" where
  "py_iter v =
     (case v of
        JArr xs \<Rightarrow> Inr xs
      | JStr s \<Rightarrow> Inr (map (\<lambda>c. JStr [c]) s)
      | JObj kvs \<Rightarrow> Inr (map (\<lambda>(k, _). JStr k) kvs)
      | _ \<Rightarrow> Inl PyTypeError)"

text \<open>\<^verbatim>\<open>isinstance(v, dict)\<close> and \<^verbatim>\<open>isinstance(v, list)\<close>.\<close>

definition is_dict :: "'f json \<Rightarrow> bool" where
  "is_dict v = (case v of JObj _ \<Rightarrow> True | _ \<Rightarrow> False)"

definition is_list :: "'f json \<Rightarrow> bool" where
  "is_list v = (case v of JArr _ \<Rightarrow> True | _ \<Rightarrow> False)"

text \<open>\<^verbatim>\<open>str(v)\<close>, as an f-string and \<^verbatim>\<open>urlencode\<close> apply it.\<close>

definition py_str :: "'f pylib \<Rightarrow> 'f json \<Rightarrow> string" where
  "py_str L v =
     (case v of
        JNull \<Rightarrow> ''None''
      | JBool b \<Rightarrow> (if b then ''True'' else ''False'')
      | JInt n \<Rightarrow> str_of_int n
      | JStr s \<Rightarrow> s
      | _ \<Rightarrow> py_repr L v)"

text \<open>\<^verbatim>\<open>float(v)\<close>.\<close>

definition py_float :: "'f pylib \<Rightarrow> 'f json \<Rightarrow> error + 'f" where
  "py_float L v =
     (case v of
        JBool b \<Rightarrow> (case float_of_int L (if b then 1 else 0) of
                      Some x \<Rightarrow> Inr x | None \<Rightarrow> Inl PyOverflowError)
      | JInt n \<Rightarrow> (case float_of_int L n of Some x \<Rightarrow> Inr x | None \<Rightarrow> Inl PyOverflowError)
      | JFloat x \<Rightarrow> Inr x
      | JStr s \<Rightarrow> (case float_of_str L s of Some x \<Rightarrow> Inr x | None \<Rightarrow> Inl PyValueError)
      | _ \<Rightarrow> Inl PyTypeError)"

text \<open>The items of a comprehension, evaluated in order; the first exception ends it.\<close>

fun traverse :: "('a \<Rightarrow> error + 'b) \<Rightarrow> 'a list \<Rightarrow> error + 'b list" where
  "traverse f [] = Inr []"
| "traverse f (x # xs) =
     and_then (f x) (\<lambda>y. and_then (traverse f xs) (\<lambda>ys. Inr (y # ys)))"

text \<open>
  \<^verbatim>\<open>datetime.fromtimestamp(v, tz=timezone.utc)\<close>: seconds since 1970-01-01T00:00:00Z.
  A boolean counts as the integer 0 or 1. An integer outside of the years 1 to 9999
  raises (ValueError, or OverflowError where it does not fit the platform's time type:
  the model has ValueError for both); a value that is not a number raises TypeError.
\<close>

definition EPOCH :: int where
  "EPOCH = (719163 - 1) * US_PER_DAY"

definition fromtimestamp :: "'f pylib \<Rightarrow> 'f json \<Rightarrow> error + datetime" where
  "fromtimestamp L v =
     (let of_seconds = (\<lambda>n.
            let w = EPOCH + n * US_PER_SECOND
            in if 0 \<le> w \<and> w < MAXORDINAL * US_PER_DAY then Inr \<lparr>wall = w, tz = utc\<rparr>
               else Inl PyValueError)
      in case v of
           JInt n \<Rightarrow> of_seconds n
         | JBool b \<Rightarrow> of_seconds (if b then 1 else 0)
         | JFloat x \<Rightarrow> and_then (float_timestamp L x) (\<lambda>w. Inr \<lparr>wall = w, tz = utc\<rparr>)
         | _ \<Rightarrow> Inl PyTypeError)"

section \<open>pstryklib/utils.py\<close>

definition decode_jwt :: "'f pylib \<Rightarrow> 'f json \<Rightarrow> error + 'f json" where
  "decode_jwt L token =
     (if \<not> truthy L token then Inl EmptyToken
      else case token of
        JStr s \<Rightarrow>
          (let parts = split_on CHR ''.'' s
           in if length parts \<noteq> 3 then Inl JWTDecodeFailed
              else
                (let payload_b64 = parts ! 1;
                     rem = length payload_b64 mod 4;
                     payload_b64 = (if rem \<noteq> 0 then payload_b64 @ replicate (4 - rem) CHR ''=''
                                    else payload_b64)
                 in case json_loads_b64 L payload_b64 of
                      Some v \<Rightarrow> Inr v
                    | None \<Rightarrow> Inl JWTDecodeFailed))
      | _ \<Rightarrow> Inl JWTDecodeFailed)"

definition iso_utc :: "datetime \<Rightarrow> error + string" where
  "iso_utc dt =
     and_then (astimezone_utc dt) (\<lambda>u.
     and_then (isoformat (replace_microsecond_0 u)) (\<lambda>s.
     Inr (str_replace ''+00:00'' ''Z'' s)))"

section \<open>pstryklib/endpoints.py\<close>

record Endpoints =
  base :: string
  api_prefix :: string
  auth_prefix :: string

definition join_url :: "Endpoints \<Rightarrow> string \<Rightarrow> string list \<Rightarrow> bool \<Rightarrow> string" where
  "join_url ep prefix parts trailing_slash =
     (let parts_clean = [rstrip CHR ''/'' (base ep), strip CHR ''/'' prefix]
                          @ map (strip CHR ''/'') parts;
          url = join ''/'' parts_clean
      in url @ (if trailing_slash \<and> \<not> endswith url ''/'' then ''/'' else []))"

definition api :: "Endpoints \<Rightarrow> string list \<Rightarrow> bool \<Rightarrow> string" where
  "api ep parts trailing_slash = join_url ep (api_prefix ep) parts trailing_slash"

definition auth :: "Endpoints \<Rightarrow> string list \<Rightarrow> bool \<Rightarrow> string" where
  "auth ep parts trailing_slash = join_url ep (auth_prefix ep) parts trailing_slash"

definition token :: "Endpoints \<Rightarrow> string" where
  "token ep = auth ep [''token''] True"

definition token_refresh :: "Endpoints \<Rightarrow> string" where
  "token_refresh ep = auth ep [''token'', ''refresh''] True"

definition meter_list :: "Endpoints \<Rightarrow> string" where
  "meter_list ep = api ep [''meter''] True"

definition full_price_alerts :: "'f pylib \<Rightarrow> Endpoints \<Rightarrow> 'f json \<Rightarrow> string" where
  "full_price_alerts L ep meter_id = api ep [''full-price-alerts'', py_str L meter_id] False"

definition pricing_buy :: "Endpoints \<Rightarrow> string" where
  "pricing_buy ep = api ep [''pricing''] True"

definition pricing_sell :: "Endpoints \<Rightarrow> string" where
  "pricing_sell ep = api ep [''prosumer-pricing''] True"

definition power_usage :: "'f pylib \<Rightarrow> Endpoints \<Rightarrow> 'f json \<Rightarrow> string" where
  "power_usage L ep meter_id = api ep [''meter-data'', py_str L meter_id, ''power-usage''] True"

definition power_cost :: "'f pylib \<Rightarrow> Endpoints \<Rightarrow> 'f json \<Rightarrow> string" where
  "power_cost L ep meter_id = api ep [''meter-data'', py_str L meter_id, ''power-cost''] True"

text \<open>
  \<^verbatim>\<open>urllib.parse.urlencode(params)\<close> for a dictionary whose keys are strings: the pairs
  \<^verbatim>\<open>key=value\<close> in the order of the dictionary, joined by \<^verbatim>\<open>&\<close>, keys and values quoted.
\<close>

definition urlencode :: "'f pylib \<Rightarrow> (string \<times> 'f json) list \<Rightarrow> string" where
  "urlencode L params =
     join ''&'' (map (\<lambda>(k, v). quote_plus k @ ''='' @ quote_plus (py_str L v)) params)"

section \<open>pstryklib/meters.py\<close>

text \<open>
  The decoded classes are records. A field that the source fills with \<^verbatim>\<open>data.get(...)\<close>
  holds the JSON value as it came, whatever the annotation of the dataclass says; the
  field names carry the class as a prefix. In each \<^verbatim>\<open>from_dict\<close> the first \<^verbatim>\<open>.get\<close>
  raises AttributeError when the argument is not a dictionary.
\<close>

record 'f Address =
  address_street :: "'f json"
  address_street_number :: "'f json"
  address_postal_code :: "'f json"
  address_city :: "'f json"

definition Address_from_dict :: "'f pylib \<Rightarrow> 'f json \<Rightarrow> error + 'f Address" where
  "Address_from_dict L data =
     (if \<not> truthy L data
      then Inr \<lparr>address_street = JNull, address_street_number = JNull,
                address_postal_code = JNull, address_city = JNull\<rparr>
      else and_then (as_dict data) (\<lambda>kvs.
        Inr \<lparr>address_street = lookup kvs ''street'' JNull,
             address_street_number = lookup kvs ''street_number'' JNull,
             address_postal_code = lookup kvs ''postal_code'' JNull,
             address_city = lookup kvs ''city'' JNull\<rparr>))"

record 'f UserInfo =
  userinfo_id :: "'f json"
  userinfo_email :: "'f json"
  userinfo_first_name :: "'f json"
  userinfo_last_name :: "'f json"
  userinfo_phone_number :: "'f json"
  userinfo_is_owner :: "'f json"

definition UserInfo_from_dict :: "'f json \<Rightarrow> error + 'f UserInfo" where
  "UserInfo_from_dict data =
     and_then (as_dict data) (\<lambda>kvs.
       Inr \<lparr>userinfo_id = lookup kvs ''id'' JNull,
            userinfo_email = lookup kvs ''email'' JNull,
            userinfo_first_name = lookup kvs ''first_name'' JNull,
            userinfo_last_name = lookup kvs ''last_name'' JNull,
            userinfo_phone_number = lookup kvs ''phone_number'' JNull,
            userinfo_is_owner = lookup kvs ''is_owner'' (JBool False)\<rparr>)"

record 'f UserLink =
  userlink_user :: "'f UserInfo"
  userlink_is_admin :: "'f json"

definition UserLink_from_dict :: "'f json \<Rightarrow> error + 'f UserLink" where
  "UserLink_from_dict data =
     and_then (as_dict data) (\<lambda>kvs.
     and_then (UserInfo_from_dict (lookup kvs ''user'' (JObj []))) (\<lambda>u.
       Inr \<lparr>userlink_user = u, userlink_is_admin = lookup kvs ''is_admin'' (JBool False)\<rparr>))"

record 'f Device =
  device_fv :: "'f json"
  device_hv :: "'f json"
  device_id :: "'f json"
  device_ip :: "'f json"
  device_type :: "'f json"
  device_product :: "'f json"
  device_apiLevel :: "'f json"
  device_universe :: "'f json"
  device_categories :: "'f json list"
  device_deviceName :: "'f json"
  device_availableFv :: "'f json"

definition Device_from_dict :: "'f pylib \<Rightarrow> 'f json \<Rightarrow> error + 'f Device" where
  "Device_from_dict L data =
     (if \<not> truthy L data
      then Inr \<lparr>device_fv = JNull, device_hv = JNull, device_id = JStr [], device_ip = JNull,
                device_type = JStr [], device_product = JStr [], device_apiLevel = JNull,
                device_universe = JNull, device_categories = [], device_deviceName = JStr [],
                device_availableFv = JNull\<rparr>
      else and_then (as_dict data) (\<lambda>kvs.
           and_then (py_iter (py_or L (lookup kvs ''categories'' (JArr [])) (JArr []))) (\<lambda>cats.
        Inr \<lparr>device_fv = lookup kvs ''fv'' JNull,
             device_hv = lookup kvs ''hv'' JNull,
             device_id = lookup kvs ''id'' (JStr []),
             device_ip = lookup kvs ''ip'' JNull,
             device_type = lookup kvs ''type'' (JStr []),
             device_product = lookup kvs ''product'' (JStr []),
             device_apiLevel = lookup kvs ''apiLevel'' JNull,
             device_universe = lookup kvs ''universe'' JNull,
             device_categories = cats,
             device_deviceName = lookup kvs ''deviceName'' (JStr []),
             device_availableFv = lookup kvs ''availableFv'' JNull\<rparr>)))"

record 'f Details =
  details_device :: "'f Device"

definition Details_from_dict :: "'f pylib \<Rightarrow> 'f json \<Rightarrow> error + 'f Details" where
  "Details_from_dict L data =
     and_then (py_get (py_or L data (JObj [])) ''device'' (JObj [])) (\<lambda>dev.
     and_then (Device_from_dict L dev) (\<lambda>d. Inr \<lparr>details_device = d\<rparr>))"

text \<open>
  \<^verbatim>\<open>MarketingCommunication\<close> and \<^verbatim>\<open>NextDayPriceSummary\<close> have the same two fields and
  the same \<^verbatim>\<open>from_dict\<close>.
\<close>

record Notification =
  push_notification_enabled :: bool
  email_notification_enabled :: bool

definition Notification_from_dict :: "'f pylib \<Rightarrow> 'f json \<Rightarrow> error + Notification" where
  "Notification_from_dict L data =
     and_then (as_dict data) (\<lambda>kvs.
       Inr \<lparr>push_notification_enabled =
              truthy L (lookup kvs ''push_notification_enabled'' (JBool False)),
            email_notification_enabled =
              truthy L (lookup kvs ''email_notification_enabled'' (JBool False))\<rparr>)"

definition MarketingCommunication_from_dict ::
  "'f pylib \<Rightarrow> 'f json \<Rightarrow> error + Notification" where
  "MarketingCommunication_from_dict = Notification_from_dict"

definition NextDayPriceSummary_from_dict ::
  "'f pylib \<Rightarrow> 'f json \<Rightarrow> error + Notification" where
  "NextDayPriceSummary_from_dict = Notification_from_dict"

record Marketing =
  marketing_communication :: Notification

definition Marketing_from_dict :: "'f pylib \<Rightarrow> 'f json \<Rightarrow> error + Marketing" where
  "Marketing_from_dict L data =
     and_then (py_get (py_or L data (JObj [])) ''marketing_communication'' (JObj [])) (\<lambda>x.
     and_then (MarketingCommunication_from_dict L x) (\<lambda>mc.
       Inr \<lparr>marketing_communication = mc\<rparr>))"

record PriceAlerts =
  next_day_price_summary :: Notification

definition PriceAlerts_from_dict :: "'f pylib \<Rightarrow> 'f json \<Rightarrow> error + PriceAlerts" where
  "PriceAlerts_from_dict L data =
     and_then (py_get (py_or L data (JObj [])) ''next_day_price_summary'' (JObj [])) (\<lambda>x.
     and_then (NextDayPriceSummary_from_dict L x) (\<lambda>s.
       Inr \<lparr>next_day_price_summary = s\<rparr>))"

record NotificationsSettings =
  marketing :: Marketing
  price_alerts :: PriceAlerts

definition NotificationsSettings_from_dict ::
  "'f pylib \<Rightarrow> 'f json \<Rightarrow> error + NotificationsSettings" where
  "NotificationsSettings_from_dict L data =
     and_then (py_get (py_or L data (JObj [])) ''marketing'' (JObj [])) (\<lambda>x.
     and_then (Marketing_from_dict L x) (\<lambda>m.
     and_then (py_get (py_or L data (JObj [])) ''price_alerts'' (JObj [])) (\<lambda>y.
     and_then (PriceAlerts_from_dict L y) (\<lambda>p.
       Inr \<lparr>marketing = m, price_alerts = p\<rparr>))))"

record UserSettings =
  notifications_settings :: NotificationsSettings

definition UserSettings_from_dict :: "'f pylib \<Rightarrow> 'f json \<Rightarrow> error + UserSettings" where
  "UserSettings_from_dict L data =
     and_then (py_get (py_or L data (JObj [])) ''notifications_settings'' (JObj [])) (\<lambda>x.
     and_then (NotificationsSettings_from_dict L x) (\<lambda>n.
       Inr \<lparr>notifications_settings = n\<rparr>))"

record 'f Meter =
  meter_id :: "'f json"
  meter_meter_id :: "'f json"
  meter_name :: "'f json"
  meter_status :: "'f json"
  meter_shippingorder :: "'f json"
  meter_is_prosument :: "'f json"
  meter_pv_installation_power :: "'f json"
  meter_has_api_key :: "'f json"
  meter_wallet_billable :: "'f json"
  meter_has_bess :: "'f json"
  meter_has_ev :: "'f json"
  meter_has_hvac :: "'f json"
  meter_property_contract_status :: "'f json"
  meter_address :: "'f Address"
  meter_users :: "'f UserLink list"
  meter_details :: "'f Details"
  meter_user_settings :: UserSettings

definition Meter_from_dict :: "'f pylib \<Rightarrow> 'f json \<Rightarrow> error + 'f Meter" where
  "Meter_from_dict L data =
     and_then (as_dict data) (\<lambda>kvs.
     and_then (Address_from_dict L (lookup kvs ''address'' JNull)) (\<lambda>a.
     and_then (py_iter (lookup kvs ''users'' (JArr []))) (\<lambda>us.
     and_then (traverse UserLink_from_dict us) (\<lambda>users.
     and_then (Details_from_dict L (lookup kvs ''details'' (JObj []))) (\<lambda>d.
     and_then (UserSettings_from_dict L (lookup kvs ''user_settings'' (JObj []))) (\<lambda>s.
       Inr \<lparr>meter_id = lookup kvs ''id'' JNull,
            meter_meter_id = lookup kvs ''meter_id'' (JStr []),
            meter_name = lookup kvs ''name'' JNull,
            meter_status = lookup kvs ''status'' JNull,
            meter_shippingorder = lookup kvs ''shippingorder'' JNull,
            meter_is_prosument = lookup kvs ''is_prosument'' (JBool False),
            meter_pv_installation_power = lookup kvs ''pv_installation_power'' JNull,
            meter_has_api_key = lookup kvs ''has_api_key'' (JBool False),
            meter_wallet_billable = lookup kvs ''wallet_billable'' (JBool False),
            meter_has_bess = lookup kvs ''has_bess'' (JBool False),
            meter_has_ev = lookup kvs ''has_ev'' (JBool False),
            meter_has_hvac = lookup kvs ''has_hvac'' (JBool False),
            meter_property_contract_status = lookup kvs ''property_contract_status'' (JStr []),
            meter_address = a,
            meter_users = users,
            meter_details = d,
            meter_user_settings = s\<rparr>))))))"

section \<open>pstryklib/full\_price\_alerts.py\<close>

record 'f FullPriceAlert =
  alert_day :: "'f json"
  alert_low_price_threshold :: "'f json"
  alert_high_price_threshold :: "'f json"
  alert_expensive_hours :: "('f json \<times> 'f json) list"
  alert_cheap_hours :: "('f json \<times> 'f json) list"
  alert_created_at :: "'f json"

text \<open>
  \<^verbatim>\<open>[(a, b) for a, b in x] if isinstance(x, list) else []\<close>: unpacking an item that
  is not iterable raises TypeError, one that has not exactly two elements ValueError.
\<close>

definition unpack_pair :: "'f json \<Rightarrow> error + ('f json \<times> 'f json)" where
  "unpack_pair item =
     and_then (py_iter item) (\<lambda>xs.
       case xs of [a, b] \<Rightarrow> Inr (a, b) | _ \<Rightarrow> Inl PyValueError)"

definition ranges :: "'f json \<Rightarrow> error + ('f json \<times> 'f json) list" where
  "ranges x = (case x of JArr items \<Rightarrow> traverse unpack_pair items | _ \<Rightarrow> Inr [])"

definition FullPriceAlert_from_dict :: "'f json \<Rightarrow> error + 'f FullPriceAlert" where
  "FullPriceAlert_from_dict d =
     and_then (as_dict d) (\<lambda>kvs.
     and_then (ranges (lookup kvs ''expensive_hours'' (JArr []))) (\<lambda>expensive.
     and_then (ranges (lookup kvs ''cheap_hours'' (JArr []))) (\<lambda>cheap.
       Inr \<lparr>alert_day = lookup kvs ''day'' JNull,
            alert_low_price_threshold = lookup kvs ''low_price_threshold'' JNull,
            alert_high_price_threshold = lookup kvs ''high_price_threshold'' JNull,
            alert_expensive_hours = expensive,
            alert_cheap_hours = cheap,
            alert_created_at = lookup kvs ''created_at'' JNull\<rparr>)))"

section \<open>pstryklib/pricing.py\<close>

text \<open>
  \<^verbatim>\<open>BuyPriceFrame\<close> and \<^verbatim>\<open>SellPriceFrame\<close> have the same fields and the same
  \<^verbatim>\<open>from_dict\<close>: one record serves both.
\<close>

record 'f PriceFrame =
  price_net :: "'f json"
  price_gross :: "'f json"
  dist_price :: "'f json"
  service_price :: "'f json"
  base_price :: "'f json"
  vat_component :: "'f json"
  excise_component :: "'f json"
  full_price :: "'f json"
  price_start :: "'f json"
  price_end :: "'f json"
  is_cheap :: bool
  is_expensive :: bool
  is_live :: "'f json"

definition PriceFrame_from_dict :: "'f pylib \<Rightarrow> 'f json \<Rightarrow> error + 'f PriceFrame" where
  "PriceFrame_from_dict L data =
     and_then (as_dict data) (\<lambda>kvs.
       Inr \<lparr>price_net = lookup kvs ''price_net'' JNull,
            price_gross = lookup kvs ''price_gross'' JNull,
            dist_price = lookup kvs ''dist_price'' JNull,
            service_price = lookup kvs ''service_price'' JNull,
            base_price = lookup kvs ''base_price'' JNull,
            vat_component = lookup kvs ''vat_component'' JNull,
            excise_component = lookup kvs ''excise_component'' JNull,
            full_price = lookup kvs ''full_price'' JNull,
            price_start = lookup kvs ''start'' JNull,
            price_end = lookup kvs ''end'' JNull,
            is_cheap = truthy L (lookup kvs ''is_cheap'' (JBool False)),
            is_expensive = truthy L (lookup kvs ''is_expensive'' (JBool False)),
            is_live = lookup kvs ''is_live'' JNull\<rparr>)"

definition BuyPriceFrame_from_dict :: "'f pylib \<Rightarrow> 'f json \<Rightarrow> error + 'f PriceFrame" where
  "BuyPriceFrame_from_dict = PriceFrame_from_dict"

definition SellPriceFrame_from_dict :: "'f pylib \<Rightarrow> 'f json \<Rightarrow> error + 'f PriceFrame" where
  "SellPriceFrame_from_dict = PriceFrame_from_dict"

section \<open>pstryklib/power\_usage.py\<close>

record 'f PowerUsageFrame =
  usage_frame_start :: "'f json"
  usage_frame_end :: "'f json"
  fae_usage :: "'f"
  rae :: "'f"
  usage_energy_balance :: "'f"

text \<open>\<^verbatim>\<open>float(d.get(key, 0) or 0)\<close> on a dictionary.\<close>

definition float_or_0 :: "'f pylib \<Rightarrow> (string \<times> 'f json) list \<Rightarrow> string \<Rightarrow> error + 'f" where
  "float_or_0 L kvs k = py_float L (py_or L (lookup kvs k (JInt 0)) (JInt 0))"

definition PowerUsageFrame_from_dict ::
  "'f pylib \<Rightarrow> 'f json \<Rightarrow> error + 'f PowerUsageFrame" where
  "PowerUsageFrame_from_dict L d =
     and_then (as_dict d) (\<lambda>kvs.
     and_then (float_or_0 L kvs ''fae_usage'') (\<lambda>fae.
     and_then (float_or_0 L kvs ''rae'') (\<lambda>r.
     and_then (float_or_0 L kvs ''energy_balance'') (\<lambda>bal.
       Inr \<lparr>usage_frame_start = lookup kvs ''start'' JNull,
            usage_frame_end = lookup kvs ''end'' JNull,
            fae_usage = fae, rae = r, usage_energy_balance = bal\<rparr>))))"

record 'f PowerUsageDay =
  usage_frames :: "'f PowerUsageFrame list"
  fae_total_usage :: "'f"
  rae_total :: "'f"
  usage_day_energy_balance :: "'f"

definition PowerUsageDay_from_api_dict ::
  "'f pylib \<Rightarrow> 'f json \<Rightarrow> error + 'f PowerUsageDay" where
  "PowerUsageDay_from_api_dict L d =
     and_then (as_dict (py_or L d (JObj []))) (\<lambda>kvs.
     and_then (py_iter (py_or L (lookup kvs ''frames'' JNull) (JArr []))) (\<lambda>frames_raw.
     and_then (traverse (PowerUsageFrame_from_dict L) (filter is_dict frames_raw)) (\<lambda>frames.
     and_then (float_or_0 L kvs ''fae_total_usage'') (\<lambda>fae.
     and_then (float_or_0 L kvs ''rae_total'') (\<lambda>r.
     and_then (float_or_0 L kvs ''energy_balance'') (\<lambda>bal.
       Inr \<lparr>usage_frames = frames, fae_total_usage = fae, rae_total = r,
            usage_day_energy_balance = bal\<rparr>))))))"

section \<open>pstryklib/power\_cost.py\<close>

record 'f PowerCostFrame =
  cost_start :: "'f json"
  cost_end :: "'f json"
  fae_cost :: "'f json"
  var_dist_cost_net :: "'f json"
  fix_dist_cost_net :: "'f json"
  energy_cost_net :: "'f json"
  service_cost_net :: "'f json"
  excise :: "'f json"
  vat :: "'f json"
  energy_sold_value :: "'f json"
  energy_balance_value :: "'f json"

text \<open>
  The local function \<^verbatim>\<open>f\<close> of \<^verbatim>\<open>PowerCostFrame.from_dict\<close>: \<^verbatim>\<open>float(x)\<close>, and when
  that raises, \<^verbatim>\<open>0.0\<close> for \<^verbatim>\<open>None\<close> and the empty string, the value itself otherwise.
\<close>

definition frame_f :: "'f pylib \<Rightarrow> 'f json \<Rightarrow> 'f json" where
  "frame_f L x =
     (case py_float L x of
        Inr v \<Rightarrow> JFloat v
      | Inl _ \<Rightarrow> (if x = JNull \<or> x = JStr [] then JFloat (zero_float L) else x))"

definition PowerCostFrame_from_dict ::
  "'f pylib \<Rightarrow> 'f json \<Rightarrow> error + 'f PowerCostFrame" where
  "PowerCostFrame_from_dict L data =
     and_then (as_dict data) (\<lambda>kvs.
       Inr \<lparr>cost_start = lookup kvs ''start'' JNull,
            cost_end = lookup kvs ''end'' JNull,
            fae_cost = frame_f L (lookup kvs ''fae_cost'' JNull),
            var_dist_cost_net = frame_f L (lookup kvs ''var_dist_cost_net'' JNull),
            fix_dist_cost_net = frame_f L (lookup kvs ''fix_dist_cost_net'' JNull),
            energy_cost_net = frame_f L (lookup kvs ''energy_cost_net'' JNull),
            service_cost_net = frame_f L (lookup kvs ''service_cost_net'' JNull),
            excise = frame_f L (lookup kvs ''excise'' JNull),
            vat = frame_f L (lookup kvs ''vat'' JNull),
            energy_sold_value = frame_f L (lookup kvs ''energy_sold_value'' JNull),
            energy_balance_value = frame_f L (lookup kvs ''energy_balance_value'' JNull)\<rparr>)"

record 'f PowerCostDay =
  cost_frames :: "'f PowerCostFrame list"
  fae_total_cost :: "'f json"
  total_energy_sold_value :: "'f json"
  total_energy_balance_value :: "'f json"
  total_sales_cost_net :: "'f json"
  total_service_cost_net :: "'f json"
  total_dist_cost_net :: "'f json"
  total_excise :: "'f json"
  total_vat :: "'f json"
  total_energy_cost_with_service :: "'f json"
  total_var_dist_cost_net :: "'f json"
  total_fix_dist_cost_net :: "'f json"
  total_energy_cost_net :: "'f json"

text \<open>
  The local function \<^verbatim>\<open>f\<close> of \<^verbatim>\<open>PowerCostDay.from_dict\<close>: \<^verbatim>\<open>float(x)\<close>, and when
  that raises, \<^verbatim>\<open>None\<close> for \<^verbatim>\<open>None\<close>, the value itself otherwise.
\<close>

definition day_f :: "'f pylib \<Rightarrow> 'f json \<Rightarrow> 'f json" where
  "day_f L x =
     (case py_float L x of
        Inr v \<Rightarrow> JFloat v
      | Inl _ \<Rightarrow> (if x = JNull then JNull else x))"

definition PowerCostDay_from_dict :: "'f pylib \<Rightarrow> 'f json \<Rightarrow> error + 'f PowerCostDay" where
  "PowerCostDay_from_dict L data =
     and_then (as_dict data) (\<lambda>kvs.
     and_then (py_iter (py_or L (lookup kvs ''frames'' JNull) (JArr []))) (\<lambda>frames_raw.
     and_then (traverse (PowerCostFrame_from_dict L) (filter is_dict frames_raw)) (\<lambda>frames.
       Inr \<lparr>cost_frames = frames,
            fae_total_cost = day_f L (lookup kvs ''fae_total_cost'' JNull),
            total_energy_sold_value = day_f L (lookup kvs ''total_energy_sold_value'' JNull),
            total_energy_balance_value =
              day_f L (lookup kvs ''total_energy_balance_value'' JNull),
            total_sales_cost_net = day_f L (lookup kvs ''total_sales_cost_net'' JNull),
            total_service_cost_net = day_f L (lookup kvs ''total_service_cost_net'' JNull),
            total_dist_cost_net = day_f L (lookup kvs ''total_dist_cost_net'' JNull),
            total_excise = day_f L (lookup kvs ''total_excise'' JNull),
            total_vat = day_f L (lookup kvs ''total_vat'' JNull),
            total_energy_cost_with_service =
              day_f L (lookup kvs ''total_energy_cost_with_service'' JNull),
            total_var_dist_cost_net = day_f L (lookup kvs ''total_var_dist_cost_net'' JNull),
            total_fix_dist_cost_net = day_f L (lookup kvs ''total_fix_dist_cost_net'' JNull),
            total_energy_cost_net = day_f L (lookup kvs ''total_energy_cost_net'' JNull)\<rparr>)))"

section \<open>The HTTP transport\<close>

text \<open>
  The aiohttp session is outside of the repository. A request gets a reply: either an
  exception of the transport, or a response with a status, whose body is read as text
  (\<^verbatim>\<open>await resp.text()\<close>) or as JSON (\<^verbatim>\<open>await resp.json()\<close>), each of which may raise.
  The provider is a function from the requests received so far, the current one last, to
  its reply; the world is the provider together with the log of the requests sent.
\<close>

record 'f response =
  status :: int
  body_text :: "error + string"
  body_json :: "error + 'f json"

datatype 'f reply = Raises error | Response "'f response"

datatype 'f request =
    GET string "(string \<times> string) list"    \<comment> \<open>URL and headers\<close>
  | POST string "'f json"                     \<comment> \<open>URL and JSON body\<close>

record 'f world =
  server :: "'f request list \<Rightarrow> 'f reply"
  sent :: "'f request list"

definition send :: "'f request \<Rightarrow> 'f world \<Rightarrow> 'f reply \<times> 'f world" where
  "send rq w = (server w (sent w @ [rq]), w\<lparr>sent := sent w @ [rq]\<rparr>)"

section \<open>pstryklib/pstryk\_api\_client.py\<close>

text \<open>
  The client's attributes. The tokens and the user id hold whatever value was assigned
  (\<^verbatim>\<open>None\<close> is \<open>JNull\<close>); \<open>session\<close> tells whether the aiohttp session has been created.
\<close>

record 'f client =
  email :: "string option"
  password :: "string option"
  session :: bool
  ep :: Endpoints
  access_token :: "'f json"
  refresh_token :: "'f json"
  user_id :: "'f json"
  AccessIssuedAt :: "datetime option"
  AccessExpires :: "datetime option"
  RefreshIssuedAt :: "datetime option"
  RefreshExpires :: "datetime option"

text \<open>A method returns its result, or the exception it raises, and the state it leaves.\<close>

type_synonym ('f, 'a) outcome = "(error + 'a) \<times> 'f client \<times> 'f world"

definition init_client :: "string option \<Rightarrow> string option \<Rightarrow> 'f client" where
  "init_client e p =
     \<lparr>email = e, password = p, session = False,
      ep = \<lparr>base = ''https://api.pstryk.pl'', api_prefix = ''/api'', auth_prefix = ''/auth''\<rparr>,
      access_token = JNull, refresh_token = JNull, user_id = JNull,
      AccessIssuedAt = None, AccessExpires = None,
      RefreshIssuedAt = None, RefreshExpires = None\<rparr>"

text \<open>\<^verbatim>\<open>datetime.fromtimestamp(decoded.get(key, 0), tz=timezone.utc)\<close>.\<close>

definition claim_time :: "'f pylib \<Rightarrow> 'f json \<Rightarrow> string \<Rightarrow> error + datetime" where
  "claim_time L decoded k = and_then (py_get decoded k (JInt 0)) (fromtimestamp L)"

definition from_tokens :: "'f pylib \<Rightarrow> 'f json \<Rightarrow> 'f json \<Rightarrow> 'f json \<Rightarrow> error + 'f client" where
  "from_tokens L access refresh uid =
     (let self = (init_client None None)
                   \<lparr>access_token := access, refresh_token := refresh, user_id := uid\<rparr>
      in and_then (decode_jwt L access) (\<lambda>decoded_access.
         and_then (claim_time L decoded_access ''iat'') (\<lambda>ai.
         and_then (claim_time L decoded_access ''exp'') (\<lambda>ae.
         and_then (decode_jwt L refresh) (\<lambda>decoded_refresh.
         and_then (claim_time L decoded_refresh ''iat'') (\<lambda>ri.
         and_then (claim_time L decoded_refresh ''exp'') (\<lambda>re.
           Inr (self\<lparr>AccessIssuedAt := Some ai, AccessExpires := Some ae,
                     RefreshIssuedAt := Some ri, RefreshExpires := Some re\<rparr>))))))))"

definition ensure_session :: "'f client \<Rightarrow> 'f client" where
  "ensure_session c = (if \<not> session c then c\<lparr>session := True\<rparr> else c)"

definition auth_headers :: "'f pylib \<Rightarrow> 'f client \<Rightarrow> error + (string \<times> string) list" where
  "auth_headers L c =
     (if \<not> truthy L (access_token c) then Inl NoAccessToken
      else Inr [(''Authorization'', ''Bearer '' @ py_str L (access_token c))])"

text \<open>
  The body of the \<^verbatim>\<open>try\<close> of \<^verbatim>\<open>refresh_access\<close> on the reply to the POST, and its
  \<^verbatim>\<open>except aiohttp.ClientError\<close> clause.
\<close>

definition refresh_reply :: "'f reply \<Rightarrow> error + 'f json" where
  "refresh_reply rep =
     (case rep of
        Raises e \<Rightarrow> Inl e
      | Response resp \<Rightarrow>
          and_then (body_text resp) (\<lambda>text.
            if status resp \<noteq> 200 then Inl (RefreshFailed (status resp) (take 200 text))
            else body_json resp))"

definition refresh_except :: "error + 'a \<Rightarrow> error + 'a" where
  "refresh_except r = (case r of Inl ClientError \<Rightarrow> Inl RefreshNetworkError | _ \<Rightarrow> r)"

text \<open>
  The assignments at the end of \<^verbatim>\<open>refresh_access\<close>, from \<^verbatim>\<open>self.access_token = new_access\<close>
  on; each one is performed before the next call that may raise.
\<close>

definition refresh_assign :: "'f pylib \<Rightarrow> 'f json \<Rightarrow> 'f json \<Rightarrow> 'f client \<Rightarrow> (error + unit) \<times> 'f client" where
  "refresh_assign L data new_access c0 =
     (let c1 = c0\<lparr>access_token := new_access\<rparr>
      in case decode_jwt L (access_token c1) of
           Inl e \<Rightarrow> (Inl e, c1)
         | Inr decoded_access \<Rightarrow>
             (case claim_time L decoded_access ''iat'' of
                Inl e \<Rightarrow> (Inl e, c1)
              | Inr ai \<Rightarrow>
                  (let c2 = c1\<lparr>AccessIssuedAt := Some ai\<rparr>
                   in case claim_time L decoded_access ''exp'' of
                        Inl e \<Rightarrow> (Inl e, c2)
                      | Inr ae \<Rightarrow>
                          (let c3 = c2\<lparr>AccessExpires := Some ae\<rparr>
                           in case py_get data ''user_id'' JNull of
                                Inl e \<Rightarrow> (Inl e, c3)
                              | Inr u \<Rightarrow> (Inr (), c3\<lparr>user_id := u\<rparr>)))))"

definition refresh_access :: "'f pylib \<Rightarrow> 'f client \<Rightarrow> 'f world \<Rightarrow> ('f, unit) outcome" where
  "refresh_access L c w =
     (let c0 = ensure_session c
      in if \<not> truthy L (refresh_token c0) then (Inl NoRefreshToken, c0, w)
         else
           (let (rep, w1) = send (POST (token_refresh (ep c0))
                                    (JObj [(''refresh'', refresh_token c0)])) w
            in case refresh_except (refresh_reply rep) of
                 Inl e \<Rightarrow> (Inl e, c0, w1)
               | Inr data \<Rightarrow>
                   (case py_get data ''access'' JNull of
                      Inl e \<Rightarrow> (Inl e, c0, w1)
                    | Inr new_access \<Rightarrow>
                        if \<not> truthy L new_access
                        then (and_then (py_keys data) (\<lambda>ks. Inl (RefreshWithoutAccess ks)),
                              c0, w1)
                        else (let (r, c') = refresh_assign L data new_access c0
                              in (r, c', w1)))))"

text \<open>\<^verbatim>\<open>_get_json\<close>: the second request, after a successful refresh.\<close>

definition get_json_retry :: "'f pylib \<Rightarrow> string \<Rightarrow> 'f client \<Rightarrow> 'f world \<Rightarrow> ('f, 'f json) outcome" where
  "get_json_retry L url c w =
     (case auth_headers L c of
        Inl e \<Rightarrow> (Inl e, c, w)
      | Inr headers \<Rightarrow>
          (let (rep, w1) = send (GET url headers) w
           in case rep of
                Raises e \<Rightarrow> (Inl e, c, w1)
              | Response resp \<Rightarrow>
                  if status resp \<noteq> 200
                  then (and_then (body_text resp) (\<lambda>text.
                          Inl (GetRetryFailed url (status resp) (take 200 text))), c, w1)
                  else (body_json resp, c, w1)))"

definition get_json :: "'f pylib \<Rightarrow> string \<Rightarrow> 'f client \<Rightarrow> 'f world \<Rightarrow> ('f, 'f json) outcome" where
  "get_json L url c w =
     (let c0 = ensure_session c
      in case auth_headers L c0 of
           Inl e \<Rightarrow> (Inl e, c0, w)
         | Inr headers \<Rightarrow>
             (let (rep, w1) = send (GET url headers) w
              in case rep of
                   Raises e \<Rightarrow> (Inl e, c0, w1)
                 | Response resp \<Rightarrow>
                     if status resp = 200 then (body_json resp, c0, w1)
                     else if status resp \<noteq> 401
                     then (and_then (body_text resp) (\<lambda>text.
                             Inl (GetFailed url (status resp) (take 200 text))), c0, w1)
                     else (case refresh_access L c0 w1 of
                             (Inl e, c1, w2) \<Rightarrow> (Inl e, c1, w2)
                           | (Inr _, c1, w2) \<Rightarrow> get_json_retry L url c1 w2)))"

text \<open>
  The body of the \<^verbatim>\<open>try\<close> of \<^verbatim>\<open>login\<close> on the reply to the POST, its \<^verbatim>\<open>except\<close> clause,
  and the assignments that follow.
\<close>

definition login_reply :: "'f reply \<Rightarrow> error + 'f json" where
  "login_reply rep =
     (case rep of
        Raises e \<Rightarrow> Inl e
      | Response resp \<Rightarrow>
          if status resp \<noteq> 200
          then and_then (body_text resp) (\<lambda>text. Inl (LoginFailed (status resp) (take 200 text)))
          else body_json resp)"

definition login_except :: "error + 'a \<Rightarrow> error + 'a" where
  "login_except r = (case r of Inl ClientError \<Rightarrow> Inl LoginNetworkError | _ \<Rightarrow> r)"

definition login_assign :: "'f pylib \<Rightarrow> (string \<times> 'f json) list \<Rightarrow> 'f client \<Rightarrow> (error + unit) \<times> 'f client" where
  "login_assign L kvs c0 =
     (let c1 = c0\<lparr>refresh_token := lookup kvs ''refresh'' JNull,
                  access_token := lookup kvs ''access'' JNull,
                  user_id := lookup kvs ''user_id'' JNull\<rparr>
      in if \<not> truthy L (access_token c1) \<or> \<not> truthy L (refresh_token c1) \<or> user_id c1 = JNull
         then (Inl (LoginUnexpectedKeys (map fst kvs)), c1)
         else
           (case decode_jwt L (access_token c1) of
              Inl e \<Rightarrow> (Inl e, c1)
            | Inr decoded_access \<Rightarrow>
           (case claim_time L decoded_access ''iat'' of
              Inl e \<Rightarrow> (Inl e, c1)
            | Inr ai \<Rightarrow>
           (let c2 = c1\<lparr>AccessIssuedAt := Some ai\<rparr>
            in case claim_time L decoded_access ''exp'' of
              Inl e \<Rightarrow> (Inl e, c2)
            | Inr ae \<Rightarrow>
           (let c3 = c2\<lparr>AccessExpires := Some ae\<rparr>
            in case decode_jwt L (refresh_token c3) of
              Inl e \<Rightarrow> (Inl e, c3)
            | Inr decoded_refresh \<Rightarrow>
           (case claim_time L decoded_refresh ''iat'' of
              Inl e \<Rightarrow> (Inl e, c3)
            | Inr ri \<Rightarrow>
           (let c4 = c3\<lparr>RefreshIssuedAt := Some ri\<rparr>
            in case claim_time L decoded_refresh ''exp'' of
              Inl e \<Rightarrow> (Inl e, c4)
            | Inr re \<Rightarrow> (Inr (), c4\<lparr>RefreshExpires := Some re\<rparr>))))))))"

definition str_given :: "string option \<Rightarrow> bool" where
  "str_given s = (case s of None \<Rightarrow> False | Some t \<Rightarrow> t \<noteq> [])"

definition login :: "'f pylib \<Rightarrow> 'f client \<Rightarrow> 'f world \<Rightarrow> ('f, unit) outcome" where
  "login L c w =
     (let c0 = ensure_session c
      in if \<not> str_given (email c0) \<or> \<not> str_given (password c0) then (Inl NoCredentials, c0, w)
         else
           (let payload = JObj [(''email'', JStr (the (email c0))),
                                (''password'', JStr (the (password c0)))];
                (rep, w1) = send (POST (token (ep c0)) payload) w
            in case login_except (login_reply rep) of
                 Inl e \<Rightarrow> (Inl e, c0, w1)
               | Inr data \<Rightarrow>
                   (case as_dict data of
                      Inl e \<Rightarrow> (Inl e, c0, w1)
                    | Inr kvs \<Rightarrow> (let (r, c') = login_assign L kvs c0 in (r, c', w1)))))"

subsection \<open>The API methods\<close>

definition get_meters :: "'f pylib \<Rightarrow> 'f client \<Rightarrow> 'f world \<Rightarrow> ('f, 'f Meter list) outcome" where
  "get_meters L c w =
     (if \<not> truthy L (access_token c) then (Inl NoAccessToken, c, w)
      else (let url = meter_list (ep c);
                (r, c', w') = get_json L url c w
            in (and_then r (\<lambda>data.
                and_then (py_iter data) (\<lambda>items. traverse (Meter_from_dict L) items)), c', w')))"

definition get_full_price_alerts ::
  "'f pylib \<Rightarrow> 'f json \<Rightarrow> 'f client \<Rightarrow> 'f world \<Rightarrow> ('f, 'f FullPriceAlert list) outcome" where
  "get_full_price_alerts L mid c w =
     (if \<not> truthy L (access_token c) then (Inl NoAccessToken, c, w)
      else (let url = full_price_alerts L (ep c) mid;
                (r, c', w') = get_json L url c w
            in (and_then r (\<lambda>data.
                and_then (py_iter data) (\<lambda>items. traverse FullPriceAlert_from_dict items)),
                c', w')))"

text \<open>\<^verbatim>\<open>frames = (data or {}).get("frames") or []\<close>, then the items of \<^verbatim>\<open>frames\<close>.\<close>

definition frames_of :: "'f pylib \<Rightarrow> 'f json \<Rightarrow> error + 'f json list" where
  "frames_of L data =
     and_then (py_get (py_or L data (JObj [])) ''frames'' JNull) (\<lambda>fr.
       py_iter (py_or L fr (JArr [])))"

text \<open>
  The query methods build their URL from the endpoint and the encoded parameters; the
  two window bounds go through \<^verbatim>\<open>iso_utc\<close>, which may raise before any request is sent.
\<close>

definition get_pricing_buy ::
  "'f pylib \<Rightarrow> 'f json \<Rightarrow> datetime \<Rightarrow> datetime \<Rightarrow> string \<Rightarrow> 'f client \<Rightarrow> 'f world
     \<Rightarrow> ('f, 'f PriceFrame list) outcome" where
  "get_pricing_buy L mid window_start window_end resolution c w =
     (if \<not> truthy L (access_token c) then (Inl NoAccessToken, c, w)
      else case iso_utc window_start of Inl e \<Rightarrow> (Inl e, c, w) | Inr ws \<Rightarrow>
           (case iso_utc window_end of Inl e \<Rightarrow> (Inl e, c, w) | Inr we \<Rightarrow>
           (let params = [(''meter_id'', mid), (''window_start'', JStr ws),
                          (''window_end'', JStr we), (''resolution'', JStr resolution)];
                url = pricing_buy (ep c) @ ''?'' @ urlencode L params;
                (r, c', w') = get_json L url c w
            in (and_then r (\<lambda>data.
                and_then (frames_of L data) (\<lambda>frames.
                  traverse (BuyPriceFrame_from_dict L) frames)), c', w'))))"

definition get_pricing_sell ::
  "'f pylib \<Rightarrow> datetime \<Rightarrow> datetime \<Rightarrow> string \<Rightarrow> 'f client \<Rightarrow> 'f world
     \<Rightarrow> ('f, 'f PriceFrame list) outcome" where
  "get_pricing_sell L window_start window_end resolution c w =
     (if \<not> truthy L (access_token c) then (Inl NoAccessToken, c, w)
      else case iso_utc window_start of Inl e \<Rightarrow> (Inl e, c, w) | Inr ws \<Rightarrow>
           (case iso_utc window_end of Inl e \<Rightarrow> (Inl e, c, w) | Inr we \<Rightarrow>
           (let params = [(''window_start'', JStr ws), (''window_end'', JStr we),
                          (''resolution'', JStr resolution)];
                url = pricing_sell (ep c) @ ''?'' @ urlencode L params;
                (r, c', w') = get_json L url c w
            in (and_then r (\<lambda>data.
                and_then (frames_of L data) (\<lambda>frames.
                  traverse (SellPriceFrame_from_dict L) frames)), c', w'))))"

definition get_power_usage_hourly ::
  "'f pylib \<Rightarrow> 'f json \<Rightarrow> datetime \<Rightarrow> datetime \<Rightarrow> string \<Rightarrow> 'f client \<Rightarrow> 'f world
     \<Rightarrow> ('f, 'f PowerUsageFrame list) outcome" where
  "get_power_usage_hourly L mid window_start window_end resolution c w =
     (if \<not> truthy L (access_token c) then (Inl NoAccessToken, c, w)
      else case iso_utc window_start of Inl e \<Rightarrow> (Inl e, c, w) | Inr ws \<Rightarrow>
           (case iso_utc window_end of Inl e \<Rightarrow> (Inl e, c, w) | Inr we \<Rightarrow>
           (let params = [(''resolution'', JStr resolution), (''window_start'', JStr ws),
                          (''window_end'', JStr we)];
                url = power_usage L (ep c) mid @ ''?'' @ urlencode L params;
                (r, c', w') = get_json L url c w
            in (and_then r (\<lambda>data.
                and_then (frames_of L data) (\<lambda>frames.
                  traverse (PowerUsageFrame_from_dict L) frames)), c', w'))))"

definition get_power_cost_day ::
  "'f pylib \<Rightarrow> 'f json \<Rightarrow> datetime \<Rightarrow> datetime \<Rightarrow> string \<Rightarrow> 'f client \<Rightarrow> 'f world
     \<Rightarrow> ('f, 'f PowerCostDay) outcome" where
  "get_power_cost_day L mid window_start window_end resolution c w =
     (if \<not> truthy L (access_token c) then (Inl NoAccessToken, c, w)
      else case iso_utc window_start of Inl e \<Rightarrow> (Inl e, c, w) | Inr ws \<Rightarrow>
           (case iso_utc window_end of Inl e \<Rightarrow> (Inl e, c, w) | Inr we \<Rightarrow>
           (let params = [(''resolution'', JStr resolution), (''window_start'', JStr ws),
                          (''window_end'', JStr we)];
                url = power_cost L (ep c) mid @ ''?'' @ urlencode L params;
                (r, c', w') = get_json L url c w
            in (and_then r (\<lambda>data. PowerCostDay_from_dict L (py_or L data (JObj []))),
                c', w'))))"

definition get_power_usage_day ::
  "'f pylib \<Rightarrow> 'f json \<Rightarrow> datetime \<Rightarrow> datetime \<Rightarrow> string \<Rightarrow> 'f client \<Rightarrow> 'f world
     \<Rightarrow> ('f, 'f PowerUsageDay) outcome" where
  "get_power_usage_day L mid window_start window_end resolution c w =
     (if \<not> truthy L (access_token c) then (Inl NoAccessToken, c, w)
      else case iso_utc window_start of Inl e \<Rightarrow> (Inl e, c, w) | Inr ws \<Rightarrow>
           (case iso_utc window_end of Inl e \<Rightarrow> (Inl e, c, w) | Inr we \<Rightarrow>
           (let params = [(''resolution'', JStr resolution), (''window_start'', JStr ws),
                          (''window_end'', JStr we)];
                url = power_usage L (ep c) mid @ ''?'' @ urlencode L params;
                (r, c', w') = get_json L url c w
            in (and_then r (\<lambda>data. PowerUsageDay_from_api_dict L (py_or L data (JObj []))),
                c', w'))))"

definition get_power_cost_hourly ::
  "'f pylib \<Rightarrow> 'f json \<Rightarrow> datetime \<Rightarrow> datetime \<Rightarrow> string \<Rightarrow> 'f client \<Rightarrow> 'f world
     \<Rightarrow> ('f, 'f PowerCostFrame list) outcome" where
  "get_power_cost_hourly L mid window_start window_end resolution c w =
     (if \<not> truthy L (access_token c) then (Inl NoAccessToken, c, w)
      else case iso_utc window_start of Inl e \<Rightarrow> (Inl e, c, w) | Inr ws \<Rightarrow>
           (case iso_utc window_end of Inl e \<Rightarrow> (Inl e, c, w) | Inr we \<Rightarrow>
           (let params = [(''resolution'', JStr resolution), (''window_start'', JStr ws),
                          (''window_end'', JStr we)];
                url = power_cost L (ep c) mid @ ''?'' @ urlencode L params;
                (r, c', w') = get_json L url c w
            in (and_then r (\<lambda>data.
                and_then (frames_of L data) (\<lambda>frames.
                  traverse (PowerCostFrame_from_dict L) frames)), c', w'))))"

subsection \<open>Observing the requests\<close>

text \<open>The requests sent between a state of the world and a later one, and their kinds.\<close>

definition new_requests :: "'f world \<Rightarrow> 'f world \<Rightarrow> 'f request list" where
  "new_requests w w' = drop (length (sent w)) (sent w')"

definition is_GET :: "'f request \<Rightarrow> bool" where
  "is_GET rq = (case rq of GET _ _ \<Rightarrow> True | POST _ _ \<Rightarrow> False)"

definition is_POST :: "'f request \<Rightarrow> bool" where
  "is_POST rq = (case rq of GET _ _ \<Rightarrow> False | POST _ _ \<Rightarrow> True)"

text \<open>The request that \<^verbatim>\<open>refresh_access\<close> posts, and the header of an authenticated GET.\<close>

definition refresh_request :: "'f client \<Rightarrow> 'f request" where
  "refresh_request c = POST (token_refresh (ep c)) (JObj [(''refresh'', refresh_token c)])"

definition bearer :: "'f pylib \<Rightarrow> 'f client \<Rightarrow> (string \<times> string) list" where
  "bearer L c = [(''Authorization'', ''Bearer '' @ py_str L (access_token c))]"

subsection \<open>The bookkeeping of the access token\<close>

text \<open>
  The issued-at and expiry fields of the access token are those of the stored token: the
  token decodes, and the two fields hold the instants built from the claims \<^verbatim>\<open>iat\<close> and
  \<^verbatim>\<open>exp\<close> of its payload (the epoch for a claim that the payload does not have).
\<close>

definition access_bookkeeping :: "'f pylib \<Rightarrow> 'f client \<Rightarrow> bool" where
  "access_bookkeeping L c =
     (case decode_jwt L (access_token c) of
        Inl e \<Rightarrow> False
      | Inr decoded \<Rightarrow>
          (case claim_time L decoded ''iat'' of
             Inl e \<Rightarrow> False
           | Inr t \<Rightarrow> AccessIssuedAt c = Some t)
          \<and> (case claim_time L decoded ''exp'' of
                Inl e \<Rightarrow> False
              | Inr t \<Rightarrow> AccessExpires c = Some t))"

definition request_url :: "'f request \<Rightarrow> string" where
  "request_url rq = (case rq of GET url _ \<Rightarrow> url | POST url _ \<Rightarrow> url)"

subsection \<open>The window bounds as the provider's API describes them\<close>

text \<open>
  The rendering that the interface asks for: the instant in UTC, as
  \<^verbatim>\<open>YYYY-MM-DDTHH:MM:SS\<close> with the fraction of the second dropped, followed by \<^verbatim>\<open>Z\<close>.
\<close>

definition iso8601_z :: "datetime \<Rightarrow> string" where
  "iso8601_z dt = format_seconds ((wall dt - tz dt (wall dt)) div US_PER_SECOND) @ ''Z''"

text \<open>Every GET among the requests \<open>xs\<close> goes to the URL \<open>url\<close>.\<close>

definition get_only :: "string \<Rightarrow> 'f request list \<Rightarrow> bool" where
  "get_only url xs \<longleftrightarrow> (\<forall>rq\<in>set xs. is_GET rq \<longrightarrow> request_url rq = url)"

section \<open>coordinator.py\<close>

text \<open>
  The values that the coordinator stores in the slot of a meter: \<^verbatim>\<open>None\<close>, a list of
  decoded objects, or a dictionary of totals. A slot is a dictionary from field names to
  such values, \<^verbatim>\<open>per_meter\<close> a dictionary from meter ids to slots. The keys of
  \<^verbatim>\<open>per_meter\<close> are compared as JSON values (Python would also identify \<^verbatim>\<open>1\<close>, \<^verbatim>\<open>1.0\<close>
  and \<^verbatim>\<open>True\<close>).
\<close>

datatype 'f slot_value =
    SNone
  | SAlerts "'f FullPriceAlert list"
  | SPrices "'f PriceFrame list"
  | SUsageFrames "'f PowerUsageFrame list"
  | SCostFrames "'f PowerCostFrame list"
  | STotals "(string \<times> 'f json) list"

type_synonym 'f slot = "string \<rightharpoonup> 'f slot_value"

record windows =
  buy :: "string \<times> string"
  sell :: "string \<times> string"
  usage :: "string \<times> string"
  cost :: "string \<times> string"

record 'f snapshot =
  ts_utc :: string
  snapshot_user_id :: "'f json"
  meters :: "'f Meter list"
  per_meter :: "'f json \<rightharpoonup> 'f slot"
  snapshot_windows :: windows

text \<open>The four window bounds computed in step 3 of \<^verbatim>\<open>_async_update_data\<close>.\<close>

record bounds =
  buy_start :: datetime
  buy_end :: datetime
  usage_start :: datetime
  usage_end :: datetime

text \<open>The two dictionaries of totals that steps 4.4 and 4.5 build.\<close>

definition power_usage_totals :: "'f PowerUsageDay \<Rightarrow> (string \<times> 'f json) list" where
  "power_usage_totals pud =
     [(''fae_total_usage'', JFloat (fae_total_usage pud)),
      (''rae_total'', JFloat (rae_total pud)),
      (''energy_balance'', JFloat (usage_day_energy_balance pud))]"

definition power_cost_totals :: "'f PowerCostDay \<Rightarrow> (string \<times> 'f json) list" where
  "power_cost_totals pcd =
     [(''fae_total_cost'', fae_total_cost pcd),
      (''total_energy_sold_value'', total_energy_sold_value pcd),
      (''total_energy_balance_value'', total_energy_balance_value pcd),
      (''total_sales_cost_net'', total_sales_cost_net pcd),
      (''total_service_cost_net'', total_service_cost_net pcd),
      (''total_dist_cost_net'', total_dist_cost_net pcd),
      (''total_excise'', total_excise pcd),
      (''total_vat'', total_vat pcd),
      (''total_energy_cost_with_service'', total_energy_cost_with_service pcd),
      (''total_var_dist_cost_net'', total_var_dist_cost_net pcd),
      (''total_fix_dist_cost_net'', total_fix_dist_cost_net pcd),
      (''total_energy_cost_net'', total_energy_cost_net pcd)]"

text \<open>Steps 4.1 to 4.5: each call is in its own \<^verbatim>\<open>try\<close> with \<^verbatim>\<open>except Exception\<close>.\<close>

definition fetch_alerts ::
  "'f pylib \<Rightarrow> 'f json \<Rightarrow> 'f slot \<Rightarrow> 'f client \<Rightarrow> 'f world \<Rightarrow> 'f slot \<times> 'f client \<times> 'f world" where
  "fetch_alerts L mid slot c w =
     (let (r, c', w') = get_full_price_alerts L mid c w
      in (case r of
            Inr alerts \<Rightarrow> slot(''alerts'' \<mapsto> SAlerts alerts)
          | Inl e \<Rightarrow> slot(''alerts'' \<mapsto> SNone), c', w'))"

definition fetch_pricing_buy ::
  "'f pylib \<Rightarrow> bounds \<Rightarrow> 'f json \<Rightarrow> 'f slot \<Rightarrow> 'f client \<Rightarrow> 'f world
     \<Rightarrow> 'f slot \<times> 'f client \<times> 'f world" where
  "fetch_pricing_buy L B mid slot c w =
     (let (r, c', w') = get_pricing_buy L mid (buy_start B) (buy_end B) ''hour'' c w
      in (case r of
            Inr frames \<Rightarrow> slot(''pricing_buy'' \<mapsto> SPrices frames)
          | Inl e \<Rightarrow> slot(''pricing_buy'' \<mapsto> SNone), c', w'))"

definition fetch_pricing_sell ::
  "'f pylib \<Rightarrow> bounds \<Rightarrow> 'f slot \<Rightarrow> 'f client \<Rightarrow> 'f world
     \<Rightarrow> 'f slot \<times> 'f client \<times> 'f world" where
  "fetch_pricing_sell L B slot c w =
     (let (r, c', w') = get_pricing_sell L (buy_start B) (buy_end B) ''hour'' c w
      in (case r of
            Inr frames \<Rightarrow> slot(''pricing_sell'' \<mapsto> SPrices frames)
          | Inl e \<Rightarrow> slot(''pricing_sell'' \<mapsto> SNone), c', w'))"

definition fetch_power_usage ::
  "'f pylib \<Rightarrow> bounds \<Rightarrow> 'f json \<Rightarrow> 'f slot \<Rightarrow> 'f client \<Rightarrow> 'f world
     \<Rightarrow> 'f slot \<times> 'f client \<times> 'f world" where
  "fetch_power_usage L B mid slot c w =
     (let (r, c', w') = get_power_usage_day L mid (usage_start B) (usage_end B) ''hour'' c w
      in (case r of
            Inr pud \<Rightarrow>
              slot(''power_usage_frames'' \<mapsto> SUsageFrames (usage_frames pud),
                   ''power_usage_totals'' \<mapsto> STotals (power_usage_totals pud))
          | Inl e \<Rightarrow>
              slot(''power_usage_frames'' \<mapsto> SNone, ''power_usage_totals'' \<mapsto> SNone),
          c', w'))"

definition fetch_power_cost ::
  "'f pylib \<Rightarrow> bounds \<Rightarrow> 'f json \<Rightarrow> 'f slot \<Rightarrow> 'f client \<Rightarrow> 'f world
     \<Rightarrow> 'f slot \<times> 'f client \<times> 'f world" where
  "fetch_power_cost L B mid slot c w =
     (let (r, c', w') = get_power_cost_day L mid (usage_start B) (usage_end B) ''hour'' c w
      in (case r of
            Inr pcd \<Rightarrow>
              slot(''power_cost_frames'' \<mapsto> SCostFrames (cost_frames pcd),
                   ''power_cost_totals'' \<mapsto> STotals (power_cost_totals pcd))
          | Inl e \<Rightarrow>
              slot(''power_cost_frames'' \<mapsto> SNone, ''power_cost_totals'' \<mapsto> SNone),
          c', w'))"

text \<open>The body of the loop for a meter whose id is not \<^verbatim>\<open>None\<close>: the new slot, filled.\<close>

definition meter_slot ::
  "'f pylib \<Rightarrow> bounds \<Rightarrow> 'f json \<Rightarrow> 'f client \<Rightarrow> 'f world \<Rightarrow> 'f slot \<times> 'f client \<times> 'f world" where
  "meter_slot L B mid c w =
     (let (s1, c1, w1) = fetch_alerts L mid Map.empty c w;
          (s2, c2, w2) = fetch_pricing_buy L B mid s1 c1 w1;
          (s3, c3, w3) = fetch_pricing_sell L B s2 c2 w2;
          (s4, c4, w4) = fetch_power_usage L B mid s3 c3 w3
      in fetch_power_cost L B mid s4 c4 w4)"

text \<open>A list or a dictionary cannot be the key of a dictionary: TypeError.\<close>

definition hashable :: "'f json \<Rightarrow> bool" where
  "hashable v = (case v of JArr _ \<Rightarrow> False | JObj _ \<Rightarrow> False | _ \<Rightarrow> True)"

text \<open>
  The loop of step 4 over the meters. \<^verbatim>\<open>per_meter[mid] = slot\<close> stores the dictionary
  that the five steps then fill, so the entry of \<open>mid\<close> is the filled slot.
\<close>

fun per_meter_loop ::
  "'f pylib \<Rightarrow> bounds \<Rightarrow> 'f Meter list \<Rightarrow> ('f json \<rightharpoonup> 'f slot) \<Rightarrow> 'f client \<Rightarrow> 'f world
     \<Rightarrow> ('f, 'f json \<rightharpoonup> 'f slot) outcome" where
  "per_meter_loop L B [] pm c w = (Inr pm, c, w)"
| "per_meter_loop L B (m # ms) pm c w =
     (let mid = meter_id m
      in if mid = JNull then per_meter_loop L B ms pm c w
         else if \<not> hashable mid then (Inl PyTypeError, c, w)
         else (let (slot, c', w') = meter_slot L B mid c w
               in per_meter_loop L B ms (pm(mid \<mapsto> slot)) c' w'))"

text \<open>
  \<^verbatim>\<open>_async_update_data\<close>. The clock is read at the start: \<open>now_utc\<close> is
  \<^verbatim>\<open>datetime.now(timezone.utc)\<close> and \<open>today_local\<close> the date of
  \<^verbatim>\<open>datetime.now(euwarsaw())\<close>.
\<close>

definition async_update_data ::
  "'f pylib \<Rightarrow> zoneinfo \<Rightarrow> datetime \<Rightarrow> date \<Rightarrow> 'f client \<Rightarrow> 'f world \<Rightarrow> ('f, 'f snapshot) outcome" where
  "async_update_data L ZoneInfo now_utc today_local c w =
     (case euwarsaw ZoneInfo of
        Inl e \<Rightarrow> (Inl e, c, w)
      | Inr _ \<Rightarrow>
     (let uid = user_id c;
          (rm, c1, w1) = get_meters L c w;
          ms = (case rm of Inr ms \<Rightarrow> ms | Inl e \<Rightarrow> [])
      in case local_day_window_utc ZoneInfo today_local of
           Inl e \<Rightarrow> (Inl e, c1, w1)
         | Inr (bs, be) \<Rightarrow>
        (case local_day_window_utc_ms ZoneInfo today_local of
           Inl e \<Rightarrow> (Inl e, c1, w1)
         | Inr (us, ue) \<Rightarrow>
        (case per_meter_loop L \<lparr>buy_start = bs, buy_end = be, usage_start = us, usage_end = ue\<rparr>
                ms Map.empty c1 w1 of
           (Inl e, c2, w2) \<Rightarrow> (Inl e, c2, w2)
         | (Inr pm, c2, w2) \<Rightarrow>
             (and_then (isoformat now_utc) (\<lambda>ts.
              and_then (iso_utc bs) (\<lambda>buy0.
              and_then (iso_utc be) (\<lambda>buy1.
              and_then (iso_utc bs) (\<lambda>sell0.
              and_then (iso_utc be) (\<lambda>sell1.
              and_then (iso_utc us) (\<lambda>usage0.
              and_then (iso_utc ue) (\<lambda>usage1.
              and_then (iso_utc us) (\<lambda>cost0.
              and_then (iso_utc ue) (\<lambda>cost1.
                Inr \<lparr>ts_utc = ts, snapshot_user_id = uid, meters = ms, per_meter = pm,
                     snapshot_windows = \<lparr>buy = (buy0, buy1), sell = (sell0, sell1),
                                          usage = (usage0, usage1),
                                          cost = (cost0, cost1)\<rparr>\<rparr>))))))))),
              c2, w2)))))"

text \<open>The seven keys of a filled slot.\<close>

definition slot_keys :: "string set" where
  "slot_keys = {''power_cost_totals'', ''power_cost_frames'', ''power_usage_totals'',
                ''power_usage_frames'', ''pricing_sell'', ''pricing_buy'', ''alerts''}"

text \<open>A field of a slot is populated: the key is present and its value is not \<^verbatim>\<open>None\<close>.\<close>

definition populated :: "'f slot \<Rightarrow> string \<Rightarrow> bool" where
  "populated slot k = (case slot k of None \<Rightarrow> False | Some SNone \<Rightarrow> False | Some _ \<Rightarrow> True)"

section \<open>A runtime and a provider for evaluation\<close>

text \<open>
  A small instance of the runtime, for evaluating the model on concrete inputs. Its
  floats are the integers, and its \<^verbatim>\<open>float()\<close> accepts no string (it is applied below only
  to strings that Python rejects too). It decodes the payloads of four tokens:
  \<^verbatim>\<open>{"iat":1700000000,"exp":1700003600}\<close>, \<^verbatim>\<open>{"iat":1700003000,"exp":1700006600}\<close>,
  \<^verbatim>\<open>{"iat":1690000000,"exp":1790000000}\<close> and \<^verbatim>\<open>{"sub":"42"}\<close>.
\<close>

definition sample_lib :: "int pylib" where
  "sample_lib =
     \<lparr>json_loads_b64 = (\<lambda>s.
        if s = ''eyJpYXQiOjE3MDAwMDAwMDAsImV4cCI6MTcwMDAwMzYwMH0=''
        then Some (JObj [(''iat'', JInt 1700000000), (''exp'', JInt 1700003600)])
        else if s = ''eyJpYXQiOjE3MDAwMDMwMDAsImV4cCI6MTcwMDAwNjYwMH0=''
        then Some (JObj [(''iat'', JInt 1700003000), (''exp'', JInt 1700006600)])
        else if s = ''eyJpYXQiOjE2OTAwMDAwMDAsImV4cCI6MTc5MDAwMDAwMH0=''
        then Some (JObj [(''iat'', JInt 1690000000), (''exp'', JInt 1790000000)])
        else if s = ''eyJzdWIiOiI0MiJ9''
        then Some (JObj [(''sub'', JStr ''42'')])
        else None),
      float_of_int = Some,
      float_of_str = (\<lambda>s. None),
      float_bool = (\<lambda>x. x \<noteq> 0),
      py_repr = (\<lambda>v. []),
      zero_float = 0,
      float_timestamp = (\<lambda>x. Inr (EPOCH + x * US_PER_SECOND))\<rparr>"

definition access_1 :: string where
  "access_1 = ''h.eyJpYXQiOjE3MDAwMDAwMDAsImV4cCI6MTcwMDAwMzYwMH0.s''"

definition access_2 :: string where
  "access_2 = ''h.eyJpYXQiOjE3MDAwMDMwMDAsImV4cCI6MTcwMDAwNjYwMH0.s''"

definition refresh_1 :: string where
  "refresh_1 = ''h.eyJpYXQiOjE2OTAwMDAwMDAsImV4cCI6MTc5MDAwMDAwMH0.s''"

definition access_bare :: string where
  "access_bare = ''h.eyJzdWIiOiI0MiJ9.s''"

text \<open>The client that \<^verbatim>\<open>from_tokens(access_1, refresh_1, 42)\<close> builds.\<close>

definition sample_client :: "int client" where
  "sample_client =
     \<lparr>email = None, password = None, session = False,
      ep = \<lparr>base = ''https://api.pstryk.pl'', api_prefix = ''/api'', auth_prefix = ''/auth''\<rparr>,
      access_token = JStr access_1, refresh_token = JStr refresh_1, user_id = JInt 42,
      AccessIssuedAt = Some \<lparr>wall = 63835596800000000, tz = utc\<rparr>,
      AccessExpires = Some \<lparr>wall = 63835600400000000, tz = utc\<rparr>,
      RefreshIssuedAt = Some \<lparr>wall = 63825596800000000, tz = utc\<rparr>,
      RefreshExpires = Some \<lparr>wall = 63925596800000000, tz = utc\<rparr>\<rparr>"

text \<open>
  A provider that answers the \<open>n\<close>-th request it receives with the \<open>n\<close>-th reply of a list,
  and lets the transport fail after the last one.
\<close>

definition scripted :: "'f reply list \<Rightarrow> 'f request list \<Rightarrow> 'f reply" where
  "scripted rs h =
     (if h \<noteq> [] \<and> length h \<le> length rs then rs ! (length h - 1) else Raises ClientError)"

definition ok_json :: "'f json \<Rightarrow> 'f reply" where
  "ok_json v = Response \<lparr>status = 200, body_text = Inr [], body_json = Inr v\<rparr>"

definition status_reply :: "int \<Rightarrow> string \<Rightarrow> 'f reply" where
  "status_reply n text = Response \<lparr>status = n, body_text = Inr text, body_json = Inl JSONDecodeError\<rparr>"

text \<open>
  A provider that rejects the first request with 401, answers the refresh with a new
  access token and no user id, and then serves an empty list.
\<close>

definition retry_world :: "int world" where
  "retry_world =
     \<lparr>server = scripted [status_reply 401 ''expired'',
                         ok_json (JObj [(''access'', JStr access_2)]),
                         ok_json (JArr [])],
      sent = []\<rparr>"

text \<open>The sample client after that refresh.\<close>

definition refreshed_client :: "int client" where
  "refreshed_client =
     sample_client\<lparr>session := True, access_token := JStr access_2, user_id := JNull,
       AccessIssuedAt := Some \<lparr>wall = 63835599800000000, tz = utc\<rparr>,
       AccessExpires := Some \<lparr>wall = 63835603400000000, tz = utc\<rparr>\<rparr>"

text \<open>
  A provider whose answer to the login lacks the user id, and one whose answer to the
  refresh carries an access token that is not a JWT.
\<close>

definition login_world :: "int world" where
  "login_world =
     \<lparr>server = scripted [ok_json (JObj [(''access'', JStr access_1),
                                         (''refresh'', JStr refresh_1)])],
      sent = []\<rparr>"

definition garbage_world :: "int world" where
  "garbage_world =
     \<lparr>server = scripted [ok_json (JObj [(''access'', JStr ''garbage'')])], sent = []\<rparr>"

text \<open>A provider that answers the refresh, or the login, as the provider's API describes.\<close>

definition refresh_world :: "int world" where
  "refresh_world =
     \<lparr>server = scripted [ok_json (JObj [(''access'', JStr access_2)])], sent = []\<rparr>"

definition login_ok_world :: "int world" where
  "login_ok_world =
     \<lparr>server = scripted [ok_json (JObj [(''access'', JStr access_1),
                                         (''refresh'', JStr refresh_1),
                                         (''user_id'', JInt 42)])],
      sent = []\<rparr>"

text \<open>A provider that answers one request with an empty JSON object.\<close>

definition empty_object_world :: "int world" where
  "empty_object_world = \<lparr>server = scripted [ok_json (JObj [])], sent = []\<rparr>"

text \<open>
  The bounds of the inclusive-millisecond window of 2025-03-29 in the zone
  \<open>warsaw_2025\<close>: 2025-03-28T23:00:00Z and 2025-03-29T22:59:59.999Z.
\<close>

definition sample_usage_start :: datetime where
  "sample_usage_start = \<lparr>wall = 63878799600000000, tz = utc\<rparr>"

definition sample_usage_end :: datetime where
  "sample_usage_end = \<lparr>wall = 63878885999999000, tz = utc\<rparr>"




text \<open>
  A provider for the five calls of one meter: it answers the price alerts with an empty
  list, fails the buy pricing with status 500, and answers the sell pricing with no
  frames, the usage with one total and the cost with one total.
\<close>

definition isolation_world :: "int world" where
  "isolation_world =
     \<lparr>server = scripted
         [ok_json (JArr []),
          status_reply 500 ''Internal Server Error'',
          ok_json (JObj [(''frames'', JArr [])]),
          ok_json (JObj [(''fae_total_usage'', JInt 7)]),
          ok_json (JObj [(''fae_total_cost'', JInt 3)])],
      sent = []\<rparr>"

definition sample_bounds :: bounds where
  "sample_bounds =
     \<lparr>buy_start = \<lparr>wall = 63878799600000000, tz = utc\<rparr>,
      buy_end = \<lparr>wall = 63878886000000000, tz = utc\<rparr>,
      usage_start = sample_usage_start, usage_end = sample_usage_end\<rparr>"

text \<open>The five calls for the meter 7, each in the state that the previous one left.\<close>

definition call_1 :: "(int, int FullPriceAlert list) outcome" where
  "call_1 = get_full_price_alerts sample_lib (JInt 7) sample_client isolation_world"

definition call_2 :: "(int, int PriceFrame list) outcome" where
  "call_2 = get_pricing_buy sample_lib (JInt 7) (buy_start sample_bounds)
              (buy_end sample_bounds) ''hour'' (fst (snd call_1)) (snd (snd call_1))"

definition call_3 :: "(int, int PriceFrame list) outcome" where
  "call_3 = get_pricing_sell sample_lib (buy_start sample_bounds)
              (buy_end sample_bounds) ''hour'' (fst (snd call_2)) (snd (snd call_2))"

definition call_4 :: "(int, int PowerUsageDay) outcome" where
  "call_4 = get_power_usage_day sample_lib (JInt 7) (usage_start sample_bounds)
              (usage_end sample_bounds) ''hour'' (fst (snd call_3)) (snd (snd call_3))"

definition call_5 :: "(int, int PowerCostDay) outcome" where
  "call_5 = get_power_cost_day sample_lib (JInt 7) (usage_start sample_bounds)
              (usage_end sample_bounds) ''hour'' (fst (snd call_4)) (snd (snd call_4))"

text \<open>A provider whose meter list is unavailable.\<close>

definition meters_down_world :: "int world" where
  "meters_down_world = \<lparr>server = scripted [status_reply 503 ''down''], sent = []\<rparr>"

text \<open>
  A provider with the two meters \<^verbatim>\<open>[{"id": 1}, {"id": 2}]\<close> that answers the five calls
  of each of them.
\<close>

definition two_meter_world :: "int world" where
  "two_meter_world =
     \<lparr>server = scripted
         [ok_json (JArr [JObj [(''id'', JInt 1)], JObj [(''id'', JInt 2)]]),
          ok_json (JArr []),
          ok_json (JObj [(''frames'', JArr [])]),
          ok_json (JObj [(''frames'', JArr [])]),
          ok_json (JObj [(''fae_total_usage'', JInt 7)]),
          ok_json (JObj [(''fae_total_cost'', JInt 3)]),
          ok_json (JArr []),
          ok_json (JObj [(''frames'', JArr [])]),
          ok_json (JObj [(''frames'', JArr [])]),
          ok_json (JObj [(''fae_total_usage'', JInt 8)]),
          ok_json (JObj [(''fae_total_cost'', JInt 4)])],
      sent = []\<rparr>"

text \<open>The clock of a refresh on 2025-03-29, at 13:00:00.123456 UTC.\<close>

definition sample_now :: datetime where
  "sample_now = \<lparr>wall = 63878850000123456, tz = utc\<rparr>"

definition sample_today :: date where
  "sample_today = \<lparr>year = 2025, month = 3, day = 29\<rparr>"

definition sample_zoneinfo :: zoneinfo where
  "sample_zoneinfo = Some (\<lambda>key. Some warsaw_2025)"

section \<open>Setup\<close>

text \<open>
  The equations of the two recursive string functions rewrite a call into a conditional
  that contains a call: they are applied by hand.
\<close>

declare str_replace.simps [simp del] str_of_nat.simps [simp del]

section \<open>Properties of the time windows\<close>

lemma and_then_simps [simp]:
  "and_then (Inl e) f = Inl e" "and_then (Inr v) f = f v"
  by (simp_all add: and_then_def)

lemma and_then_Inr_iff:
  "and_then r f = Inr y \<longleftrightarrow> (\<exists>v. r = Inr v \<and> f v = Inr y)"
  by (cases r) simp_all

lemma and_then_Inl_iff:
  "and_then r f = Inl e \<longleftrightarrow> r = Inl e \<or> (\<exists>v. r = Inr v \<and> f v = Inl e)"
  by (cases r) simp_all

lemma end_local_is_next_midnight:
  assumes "next_day d d'" and "datetime_midnight d z = Inr s"
    and "dt_add s (1 * US_PER_DAY) = Inr t"
  shows "datetime_midnight d' z = Inr t"
  using assms
  by (auto simp: next_day_def datetime_midnight_def dt_add_def Let_def algebra_simps
      split: if_splits)

lemma astimezone_utc_in_range:
  assumes "- US_PER_DAY < tz dt (wall dt)" and "tz dt (wall dt) < US_PER_DAY"
    and "US_PER_DAY \<le> wall dt" and "wall dt + US_PER_DAY \<le> MAXORDINAL * US_PER_DAY"
  shows "astimezone_utc dt = Inr \<lparr>wall = wall dt - tz dt (wall dt), tz = utc\<rparr>"
  using assms by (simp add: astimezone_utc_def dt_add_def Let_def)

lemma local_day_window_utc_returns:
  assumes z: "euwarsaw ZoneInfo = Inr z" and off: "\<forall>w. - US_PER_DAY < z w \<and> z w < US_PER_DAY"
    and v: "valid_date d" and lo: "2 \<le> toordinal d" and hi: "toordinal d + 1 \<le> MAXORDINAL"
  shows "local_day_window_utc ZoneInfo d =
           Inr (\<lparr>wall = (toordinal d - 1) * US_PER_DAY - z ((toordinal d - 1) * US_PER_DAY),
                  tz = utc\<rparr>,
                \<lparr>wall = toordinal d * US_PER_DAY - z (toordinal d * US_PER_DAY), tz = utc\<rparr>)"
proof -
  let ?s = "\<lparr>wall = (toordinal d - 1) * US_PER_DAY, tz = z\<rparr>"
  let ?t = "\<lparr>wall = toordinal d * US_PER_DAY, tz = z\<rparr>"
  have D: "0 < US_PER_DAY" by (simp add: US_PER_DAY_def)
  have s: "datetime_midnight d z = Inr ?s" using v by (simp add: datetime_midnight_def)
  have lt: "toordinal d * US_PER_DAY < MAXORDINAL * US_PER_DAY"
    using hi D by (simp add: mult_strict_right_mono)
  have ge: "0 \<le> toordinal d * US_PER_DAY" using lo D by simp
  have t: "dt_add ?s (1 * US_PER_DAY) = Inr ?t"
    using lt ge by (simp add: dt_add_def Let_def algebra_simps)
  have s1: "US_PER_DAY \<le> (toordinal d - 1) * US_PER_DAY"
    using lo D mult_right_mono [of 1 "toordinal d - 1" US_PER_DAY] by simp
  have s2: "(toordinal d - 1) * US_PER_DAY + US_PER_DAY \<le> MAXORDINAL * US_PER_DAY"
    using lt by (simp add: algebra_simps)
  have t1: "US_PER_DAY \<le> toordinal d * US_PER_DAY"
    using lo D mult_right_mono [of 1 "toordinal d" US_PER_DAY] by simp
  have t2: "toordinal d * US_PER_DAY + US_PER_DAY \<le> MAXORDINAL * US_PER_DAY"
    using hi D mult_right_mono [of "toordinal d + 1" MAXORDINAL US_PER_DAY]
    by (simp add: algebra_simps)
  have as: "astimezone_utc ?s = Inr \<lparr>wall = wall ?s - tz ?s (wall ?s), tz = utc\<rparr>"
    by (rule astimezone_utc_in_range) (use off s1 s2 in simp_all)
  have at: "astimezone_utc ?t = Inr \<lparr>wall = wall ?t - tz ?t (wall ?t), tz = utc\<rparr>"
    by (rule astimezone_utc_in_range) (use off t1 t2 in simp_all)
  show ?thesis
    unfolding local_day_window_utc_def using z s t as at by simp
qed

text \<open>
  C4. The exclusive day windows of consecutive dates are adjacent. Whenever the windows
  of a date \<open>d\<close> and of the next date \<open>d'\<close> are both computed, the UTC end of the first is the
  UTC start of the second, whatever the zone's offsets are (so also when a DST transition
  falls on one of the two dates). Both are computed, and the second window starts where
  the first ends, for every date from 0001-01-02 to 9999-12-29 whenever the zone is found
  and its offsets are proper (strictly between -24h and 24h).
\<close>

theorem day_windows_adjacent:
  assumes "next_day d d'"
  shows "(\<forall>s e s' e'. local_day_window_utc ZoneInfo d = Inr (s, e) \<and>
             local_day_window_utc ZoneInfo d' = Inr (s', e') \<longrightarrow> e = s')
       \<and> (\<forall>z. euwarsaw ZoneInfo = Inr z \<and> (\<forall>w. - US_PER_DAY < z w \<and> z w < US_PER_DAY) \<and>
             2 \<le> toordinal d \<and> toordinal d + 2 \<le> MAXORDINAL \<longrightarrow>
             (\<exists>s e e'. local_day_window_utc ZoneInfo d = Inr (s, e) \<and>
                 local_day_window_utc ZoneInfo d' = Inr (e, e')))"
proof (intro conjI allI impI)
  fix s e s' e'
  assume "local_day_window_utc ZoneInfo d = Inr (s, e) \<and>
          local_day_window_utc ZoneInfo d' = Inr (s', e')"
  then show "e = s'"
    unfolding local_day_window_utc_def and_then_Inr_iff
    using end_local_is_next_midnight [OF assms] by auto
next
  fix z
  assume a: "euwarsaw ZoneInfo = Inr z \<and> (\<forall>w. - US_PER_DAY < z w \<and> z w < US_PER_DAY) \<and>
             2 \<le> toordinal d \<and> toordinal d + 2 \<le> MAXORDINAL"
  have n: "toordinal d' = toordinal d + 1" "valid_date d" "valid_date d'"
    using assms by (simp_all add: next_day_def)
  have 1: "local_day_window_utc ZoneInfo d =
           Inr (\<lparr>wall = (toordinal d - 1) * US_PER_DAY - z ((toordinal d - 1) * US_PER_DAY),
                  tz = utc\<rparr>,
                \<lparr>wall = toordinal d * US_PER_DAY - z (toordinal d * US_PER_DAY), tz = utc\<rparr>)"
    by (rule local_day_window_utc_returns) (use a n in simp_all)
  have 2: "local_day_window_utc ZoneInfo d' =
           Inr (\<lparr>wall = (toordinal d' - 1) * US_PER_DAY - z ((toordinal d' - 1) * US_PER_DAY),
                  tz = utc\<rparr>,
                \<lparr>wall = toordinal d' * US_PER_DAY - z (toordinal d' * US_PER_DAY), tz = utc\<rparr>)"
    by (rule local_day_window_utc_returns) (use a n in simp_all)
  show "\<exists>s e e'. local_day_window_utc ZoneInfo d = Inr (s, e) \<and>
          local_day_window_utc ZoneInfo d' = Inr (e, e')"
    unfolding 1 2 using n by simp
qed

lemmas time_consts =
  US_PER_DAY_def US_PER_HOUR_def US_PER_MS_def US_PER_SECOND_def MAXORDINAL_def

lemmas date_defs =
  valid_date_def toordinal_def days_before_year_def days_before_month_def
  days_in_month_def is_leap_def

lemmas window_defs =
  local_day_window_utc_def local_day_window_utc_ms_def euwarsaw_def datetime_midnight_def
  dt_add_def astimezone_utc_def timezone_def

text \<open>
  The theorem at the night of the change to summer time, 2025-03-29 and 2025-03-30 in
  the zone \<open>warsaw_2025\<close>: the first window is 24 hours long, the second 23 hours, and
  they share the instant 2025-03-29T23:00:00Z.
\<close>

theorem day_windows_adjacent_witness:
  "next_day \<lparr>year = 2025, month = 3, day = 29\<rparr> \<lparr>year = 2025, month = 3, day = 30\<rparr>
   \<and> local_day_window_utc (Some (\<lambda>k. Some warsaw_2025)) \<lparr>year = 2025, month = 3, day = 29\<rparr>
       = Inr (\<lparr>wall = 63878799600000000, tz = utc\<rparr>, \<lparr>wall = 63878886000000000, tz = utc\<rparr>)
   \<and> local_day_window_utc (Some (\<lambda>k. Some warsaw_2025)) \<lparr>year = 2025, month = 3, day = 30\<rparr>
       = Inr (\<lparr>wall = 63878886000000000, tz = utc\<rparr>, \<lparr>wall = 63878968800000000, tz = utc\<rparr>)
   \<and> snd (\<lparr>wall = 63878799600000000, tz = utc\<rparr>, \<lparr>wall = 63878886000000000, tz = utc\<rparr>)
       = fst (\<lparr>wall = 63878886000000000, tz = utc\<rparr>, \<lparr>wall = 63878968800000000, tz = utc\<rparr>)"
proof -
  let ?Z = "Some (\<lambda>k. Some warsaw_2025) :: zoneinfo"
  let ?d = "\<lparr>year = 2025, month = 3, day = 29\<rparr>"
  let ?d' = "\<lparr>year = 2025, month = 3, day = 30\<rparr>"
  let ?s = "\<lparr>wall = 63878799600000000, tz = utc\<rparr>"
  let ?e = "\<lparr>wall = 63878886000000000, tz = utc\<rparr>"
  let ?e' = "\<lparr>wall = 63878968800000000, tz = utc\<rparr>"
  have n: "next_day ?d ?d'"
    by (simp add: next_day_def date_defs)
  have 1: "local_day_window_utc ?Z ?d = Inr (?s, ?e)"
    by (simp add: window_defs date_defs time_consts warsaw_2025_def Let_def)
  have 2: "local_day_window_utc ?Z ?d' = Inr (?e, ?e')"
    by (simp add: window_defs date_defs time_consts warsaw_2025_def Let_def)
  have "local_day_window_utc ?Z ?d = Inr (?s, ?e) \<and> local_day_window_utc ?Z ?d' = Inr (?e, ?e')
          \<longrightarrow> ?e = ?e"
    using day_windows_adjacent [OF n, of ?Z] by blast
  with 1 2 have "snd (?s, ?e) = fst (?e, ?e')" by simp
  with n 1 2 show ?thesis by blast
qed

text \<open>
  What \<^verbatim>\<open>local_day_window_utc_ms\<close> computes, for every zone and every date for which both
  windows are computed. The start is the start of the exclusive window. The end is the UTC
  image of the local reading 23:59:59.999, taken with the offset the zone has at that
  reading, where the exclusive end is the UTC image of the following local midnight. So the
  two ends are one millisecond apart if and only if the zone has the same offset at both
  readings.
\<close>

lemma inclusive_end_is_image:
  assumes "euwarsaw ZoneInfo = Inr z"
    and "local_day_window_utc ZoneInfo d = Inr (s, e)"
    and "local_day_window_utc_ms ZoneInfo d = Inr (s', e')"
  shows "s' = s"
    and "e = \<lparr>wall = toordinal d * US_PER_DAY - z (toordinal d * US_PER_DAY), tz = utc\<rparr>"
    and "e' = \<lparr>wall = toordinal d * US_PER_DAY - 1 * US_PER_MS
                      - z (toordinal d * US_PER_DAY - 1 * US_PER_MS), tz = utc\<rparr>"
    and "e' = e\<lparr>wall := wall e - 1 * US_PER_MS\<rparr> \<longleftrightarrow>
            z (toordinal d * US_PER_DAY - 1 * US_PER_MS) = z (toordinal d * US_PER_DAY)"
  using assms
  unfolding local_day_window_utc_def local_day_window_utc_ms_def and_then_Inr_iff
  by (auto simp: datetime_midnight_def dt_add_def astimezone_utc_def Let_def algebra_simps
      split: if_splits sum.splits)

text \<open>
  On a day without a change of offset the two ends are one millisecond apart:
  2025-03-29 in the zone \<open>warsaw_2025\<close>.
\<close>

lemma inclusive_window_2025_03_29:
  "local_day_window_utc (Some (\<lambda>k. Some warsaw_2025)) \<lparr>year = 2025, month = 3, day = 29\<rparr>
       = Inr (\<lparr>wall = 63878799600000000, tz = utc\<rparr>, \<lparr>wall = 63878886000000000, tz = utc\<rparr>)
   \<and> local_day_window_utc_ms (Some (\<lambda>k. Some warsaw_2025)) \<lparr>year = 2025, month = 3, day = 29\<rparr>
       = Inr (\<lparr>wall = 63878799600000000, tz = utc\<rparr>, \<lparr>wall = 63878885999999000, tz = utc\<rparr>)
   \<and> (63878886000000000 :: int) - 63878885999999000 = 1 * US_PER_MS"
  by (simp add: window_defs date_defs time_consts warsaw_2025_def Let_def)


section \<open>Properties of the client\<close>

lemma ensure_session_fields [simp]:
  "ep (ensure_session c) = ep c" "access_token (ensure_session c) = access_token c"
  "refresh_token (ensure_session c) = refresh_token c" "user_id (ensure_session c) = user_id c"
  "AccessIssuedAt (ensure_session c) = AccessIssuedAt c"
  "AccessExpires (ensure_session c) = AccessExpires c"
  "RefreshIssuedAt (ensure_session c) = RefreshIssuedAt c"
  "RefreshExpires (ensure_session c) = RefreshExpires c"
  "email (ensure_session c) = email c" "password (ensure_session c) = password c"
  "session (ensure_session c) = True"
  by (simp_all add: ensure_session_def)

lemma refresh_assign_frame:
  assumes "refresh_assign L data na c = (r, c')"
  shows "ep c' = ep c \<and> refresh_token c' = refresh_token c \<and> access_token c' = na
     \<and> session c' = session c \<and> email c' = email c \<and> password c' = password c
     \<and> RefreshIssuedAt c' = RefreshIssuedAt c \<and> RefreshExpires c' = RefreshExpires c"
  using assms
  by (auto simp: refresh_assign_def Let_def split: sum.splits)

lemma refresh_access_world:
  assumes "refresh_access L c w = (r, c', w')"
  shows "server w' = server w \<and> ep c' = ep c \<and>
         (sent w' = sent w \<or> sent w' = sent w @ [refresh_request c])"
  using assms
  by (auto simp: refresh_access_def Let_def send_def refresh_request_def
      split: if_splits sum.splits prod.splits dest: refresh_assign_frame)

lemma refresh_access_ok:
  assumes "refresh_access L c w = (Inr u, c', w')"
  shows "sent w' = sent w @ [refresh_request c] \<and> truthy L (access_token c')
     \<and> server w' = server w \<and> ep c' = ep c"
  using assms
  by (auto simp: refresh_access_def Let_def send_def refresh_request_def and_then_Inr_iff
      split: if_splits sum.splits prod.splits dest: refresh_assign_frame)

lemma get_json_unfold:
  assumes tok: "truthy L (access_token c)"
    and first: "server w (sent w @ [GET url (bearer L c)]) = Response resp"
  shows "get_json L url c w =
     (if status resp = 200
      then (body_json resp, ensure_session c, w\<lparr>sent := sent w @ [GET url (bearer L c)]\<rparr>)
      else if status resp \<noteq> 401
      then (and_then (body_text resp) (\<lambda>text. Inl (GetFailed url (status resp) (take 200 text))),
            ensure_session c, w\<lparr>sent := sent w @ [GET url (bearer L c)]\<rparr>)
      else (case refresh_access L (ensure_session c)
                   (w\<lparr>sent := sent w @ [GET url (bearer L c)]\<rparr>) of
              (Inl e, c1, w2) \<Rightarrow> (Inl e, c1, w2)
            | (Inr u, c1, w2) \<Rightarrow> get_json_retry L url c1 w2))"
  using tok first
  by (simp add: get_json_def auth_headers_def bearer_def send_def Let_def)

lemma get_json_retry_unfold:
  assumes tok: "truthy L (access_token c)"
  shows "get_json_retry L url c w =
     (case server w (sent w @ [GET url (bearer L c)]) of
        Raises e \<Rightarrow> (Inl e, c, w\<lparr>sent := sent w @ [GET url (bearer L c)]\<rparr>)
      | Response resp \<Rightarrow>
          if status resp \<noteq> 200
          then (and_then (body_text resp) (\<lambda>text.
                  Inl (GetRetryFailed url (status resp) (take 200 text))), c,
                w\<lparr>sent := sent w @ [GET url (bearer L c)]\<rparr>)
          else (body_json resp, c, w\<lparr>sent := sent w @ [GET url (bearer L c)]\<rparr>))"
  using tok
  by (simp add: get_json_retry_def auth_headers_def bearer_def send_def Let_def
      split: reply.splits)

lemma and_then_Inl_const:
  "\<exists>e. and_then r (\<lambda>x. Inl (g x)) = Inl e"
  by (cases r) simp_all

lemma new_requests_append [simp]: "new_requests w (w'\<lparr>sent := sent w @ xs\<rparr>) = xs"
  by (simp add: new_requests_def)

lemma new_requests_eq: "sent w' = sent w @ xs \<Longrightarrow> new_requests w w' = xs"
  by (simp add: new_requests_def)

lemma get_json_200:
  assumes tok: "truthy L (access_token c)"
    and first: "server w (sent w @ [GET url (bearer L c)]) = Response resp"
    and run: "get_json L url c w = (r, c', w')"
    and st: "status resp = 200"
  shows "r = body_json resp \<and> new_requests w w' = [GET url (bearer L c)]
         \<and> c' = ensure_session c"
proof -
  have "get_json L url c w =
      (body_json resp, ensure_session c, w\<lparr>sent := sent w @ [GET url (bearer L c)]\<rparr>)"
    unfolding get_json_unfold [OF tok first] using st by simp
  with run show ?thesis by auto
qed

lemma get_json_other:
  assumes tok: "truthy L (access_token c)"
    and first: "server w (sent w @ [GET url (bearer L c)]) = Response resp"
    and run: "get_json L url c w = (r, c', w')"
    and st: "status resp \<noteq> 200" "status resp \<noteq> 401"
  shows "r = and_then (body_text resp) (\<lambda>text. Inl (GetFailed url (status resp) (take 200 text)))
         \<and> new_requests w w' = [GET url (bearer L c)] \<and> c' = ensure_session c"
proof -
  have "get_json L url c w =
      (and_then (body_text resp) (\<lambda>text. Inl (GetFailed url (status resp) (take 200 text))),
       ensure_session c, w\<lparr>sent := sent w @ [GET url (bearer L c)]\<rparr>)"
    unfolding get_json_unfold [OF tok first] using st by simp
  with run show ?thesis by auto
qed

lemma get_json_401:
  assumes tok: "truthy L (access_token c)"
    and first: "server w (sent w @ [GET url (bearer L c)]) = Response resp"
    and refresh: "refresh_access L (ensure_session c)
                    (w\<lparr>sent := sent w @ [GET url (bearer L c)]\<rparr>) = (r1, c1, w2)"
    and st: "status resp = 401"
  shows "get_json L url c w =
           (case r1 of Inl e \<Rightarrow> (Inl e, c1, w2) | Inr u \<Rightarrow> get_json_retry L url c1 w2)"
  unfolding get_json_unfold [OF tok first] using st refresh
  by (simp split: sum.splits)


lemma get_json_retry_result:
  assumes tok: "truthy L (access_token c)"
    and run: "get_json_retry L url c w = (r, c', w')"
  shows "c' = c \<and> sent w' = sent w @ [GET url (bearer L c)] \<and> server w' = server w
       \<and> (\<forall>e. server w (sent w') = Raises e \<longrightarrow> r = Inl e)
       \<and> (\<forall>resp2. server w (sent w') = Response resp2 \<longrightarrow>
             (status resp2 = 200 \<longrightarrow> r = body_json resp2) \<and>
             (status resp2 \<noteq> 200 \<longrightarrow>
                r = and_then (body_text resp2) (\<lambda>text.
                      Inl (GetRetryFailed url (status resp2) (take 200 text)))))"
proof (cases "server w (sent w @ [GET url (bearer L c)])")
  case (Raises e)
  with run show ?thesis unfolding get_json_retry_unfold [OF tok] by auto
next
  case (Response resp)
  with run show ?thesis unfolding get_json_retry_unfold [OF tok]
    by (cases "status resp = 200") auto
qed

lemma and_then_Inl_text:
  "and_then r (\<lambda>x. Inl (g x)) = y \<Longrightarrow>
     (\<exists>e. y = Inl e) \<and> (\<forall>t. r = Inr t \<longrightarrow> y = Inl (g t))"
  by (cases r) auto

text \<open>
  C1. The authenticated GET, when the first request is answered by a response. On 200 it
  returns the body after that single request. On a status other than 200 and 401 it
  raises at once, carrying the URL, the status and the first 200 characters of the body,
  with no refresh and no second request. On 401 it calls \<^verbatim>\<open>refresh_access\<close> once: when that
  raises, the exception propagates and no second GET is sent; when it returns, exactly one
  more GET is sent, with the header built from the new token, and its outcome is final:
  the body on 200, an exception on any other status or on a transport failure. In every
  case at most two GETs and at most one POST are sent.
\<close>

theorem get_json_retry_once:
  assumes tok: "truthy L (access_token c)"
    and first: "server w (sent w @ [GET url (bearer L c)]) = Response resp"
    and refresh: "refresh_access L (ensure_session c)
                    (w\<lparr>sent := sent w @ [GET url (bearer L c)]\<rparr>) = (r1, c1, w2)"
    and run: "get_json L url c w = (r, c', w')"
  shows "(status resp = 200 \<longrightarrow>
            r = body_json resp \<and> new_requests w w' = [GET url (bearer L c)])
       \<and> (status resp \<noteq> 200 \<and> status resp \<noteq> 401 \<longrightarrow>
            (\<exists>e. r = Inl e) \<and>
            (\<forall>text. body_text resp = Inr text \<longrightarrow>
                r = Inl (GetFailed url (status resp) (take 200 text))) \<and>
            new_requests w w' = [GET url (bearer L c)] \<and> c' = ensure_session c)
       \<and> (status resp = 401 \<longrightarrow>
            (\<forall>e. r1 = Inl e \<longrightarrow>
                r = Inl e \<and> c' = c1 \<and> w' = w2 \<and>
                filter is_GET (new_requests w w') = [GET url (bearer L c)]) \<and>
            (\<forall>u. r1 = Inr u \<longrightarrow>
                c' = c1 \<and>
                new_requests w w' =
                  [GET url (bearer L c), refresh_request c, GET url (bearer L c1)] \<and>
                (\<forall>e. server w (sent w') = Raises e \<longrightarrow> r = Inl e) \<and>
                (\<forall>resp2. server w (sent w') = Response resp2 \<longrightarrow>
                    (status resp2 = 200 \<longrightarrow> r = body_json resp2) \<and>
                    (status resp2 \<noteq> 200 \<longrightarrow>
                       (\<exists>e. r = Inl e) \<and>
                       (\<forall>text. body_text resp2 = Inr text \<longrightarrow>
                           r = Inl (GetRetryFailed url (status resp2) (take 200 text)))))))
       \<and> length (filter is_GET (new_requests w w')) \<le> 2
       \<and> length (filter is_POST (new_requests w w')) \<le> 1"
proof -
  let ?g = "GET url (bearer L c)"
  let ?p = "refresh_request c"
  let ?w1 = "w\<lparr>sent := sent w @ [?g]\<rparr>"
  have g: "is_GET ?g" "\<not> is_POST ?g" "is_POST ?p" "\<not> is_GET ?p"
    "is_GET (GET url (bearer L c1))" "\<not> is_POST (GET url (bearer L c1))"
    by (simp_all add: is_GET_def is_POST_def refresh_request_def)
  have rq: "refresh_request (ensure_session c) = ?p"
    by (simp add: refresh_request_def)
  from refresh_access_world [OF refresh]
  have rw: "server w2 = server w"
    and rs: "sent w2 = sent w @ [?g] \<or> sent w2 = sent w @ [?g, ?p]"
    by (simp_all add: rq)
  show ?thesis
  proof (cases "status resp = 200")
    case True
    from get_json_200 [OF tok first run True] True g show ?thesis by simp
  next
    case n200: False
    show ?thesis
    proof (cases "status resp = 401")
      case False
      from get_json_other [OF tok first run n200 False]
      have r: "r = and_then (body_text resp)
                     (\<lambda>text. Inl (GetFailed url (status resp) (take 200 text)))"
        and n: "new_requests w w' = [?g]" and c: "c' = ensure_session c" by simp_all
      from and_then_Inl_text [OF r [symmetric]]
      have "(\<exists>e. r = Inl e) \<and> (\<forall>text. body_text resp = Inr text \<longrightarrow>
                r = Inl (GetFailed url (status resp) (take 200 text)))" .
      with n c n200 False g show ?thesis by simp
    next
      case True
      note unf = get_json_401 [OF tok first refresh True]
      show ?thesis
      proof (cases r1)
        case (Inl e)
        with unf run have res: "r = Inl e" "c' = c1" "w' = w2" by simp_all
        from rs have "filter is_GET (new_requests w w2) = [?g]
                    \<and> length (filter is_POST (new_requests w w2)) \<le> 1"
          using g by (auto simp: new_requests_def)
        with res Inl True n200 g show ?thesis by simp
      next
        case (Inr u)
        from refresh Inr refresh_access_ok [of L "ensure_session c" ?w1 u c1 w2]
        have s2: "sent w2 = sent w @ [?g, ?p]" and t: "truthy L (access_token c1)"
          by (simp_all add: rq)
        from unf run Inr have eq: "get_json_retry L url c1 w2 = (r, c', w')" by simp
        from get_json_retry_result [OF t eq]
        have c: "c' = c1" and s: "sent w' = sent w2 @ [GET url (bearer L c1)]"
          and ra: "\<forall>e. server w2 (sent w') = Raises e \<longrightarrow> r = Inl e"
          and rb: "\<forall>resp2. server w2 (sent w') = Response resp2 \<longrightarrow>
             (status resp2 = 200 \<longrightarrow> r = body_json resp2) \<and>
             (status resp2 \<noteq> 200 \<longrightarrow>
                r = and_then (body_text resp2) (\<lambda>text.
                      Inl (GetRetryFailed url (status resp2) (take 200 text))))"
          by simp_all
        have n: "new_requests w w' = [?g, ?p, GET url (bearer L c1)]"
          by (rule new_requests_eq) (simp add: s s2)
        have rb': "\<forall>resp2. server w (sent w') = Response resp2 \<longrightarrow>
                    (status resp2 = 200 \<longrightarrow> r = body_json resp2) \<and>
                    (status resp2 \<noteq> 200 \<longrightarrow>
                       (\<exists>e. r = Inl e) \<and>
                       (\<forall>text. body_text resp2 = Inr text \<longrightarrow>
                           r = Inl (GetRetryFailed url (status resp2) (take 200 text))))"
        proof (intro allI impI)
          fix resp2 assume a: "server w (sent w') = Response resp2"
          show "(status resp2 = 200 \<longrightarrow> r = body_json resp2) \<and>
                    (status resp2 \<noteq> 200 \<longrightarrow>
                       (\<exists>e. r = Inl e) \<and>
                       (\<forall>text. body_text resp2 = Inr text \<longrightarrow>
                           r = Inl (GetRetryFailed url (status resp2) (take 200 text))))"
          proof (cases "status resp2 = 200")
            case True
            with rb a rw show ?thesis by simp
          next
            case False
            with rb a rw have "and_then (body_text resp2) (\<lambda>text.
                      Inl (GetRetryFailed url (status resp2) (take 200 text))) = r" by simp
            from and_then_Inl_text [OF this] False show ?thesis by simp
          qed
        qed
        have ra': "\<forall>e. server w (sent w') = Raises e \<longrightarrow> r = Inl e"
          using ra rw by simp
        have cnt: "length (filter is_GET (new_requests w w')) \<le> 2
           \<and> length (filter is_POST (new_requests w w')) \<le> 1"
          unfolding n by (simp add: is_GET_def is_POST_def refresh_request_def)
        show ?thesis
          using True Inr c n ra' rb' cnt by simp
      qed
    qed
  qed
qed

lemmas client_eval =
  get_json_def get_json_retry_def refresh_access_def refresh_assign_def refresh_reply_def
  refresh_except_def auth_headers_def ensure_session_def send_def claim_time_def
  fromtimestamp_def decode_jwt_def truthy_def py_get_def as_dict_def lookup_def py_keys_def
  py_str_def scripted_def ok_json_def status_reply_def sample_lib_def
  access_1_def access_2_def refresh_1_def access_bare_def EPOCH_def
  US_PER_DAY_def US_PER_SECOND_def MAXORDINAL_def token_refresh_def auth_def join_url_def
  rstrip_def strip_def endswith_def bearer_def refresh_request_def Let_def
  sample_client_def refreshed_client_def retry_world_def

text \<open>
  The theorem on the provider \<open>retry_world\<close>: 401, then a successful refresh, then 200.
  Three requests are sent, the last one with the new token, and the retried body is
  returned.
\<close>

theorem get_json_retry_once_witness:
  "truthy sample_lib (access_token sample_client)
   \<and> server retry_world
         (sent retry_world
            @ [GET ''https://api.pstryk.pl/api/meter/'' (bearer sample_lib sample_client)])
       = Response \<lparr>status = 401, body_text = Inr ''expired'', body_json = Inl JSONDecodeError\<rparr>
   \<and> refresh_access sample_lib (ensure_session sample_client)
         (retry_world\<lparr>sent := sent retry_world
            @ [GET ''https://api.pstryk.pl/api/meter/'' (bearer sample_lib sample_client)]\<rparr>)
       = (Inr (), refreshed_client,
          retry_world\<lparr>sent :=
            [GET ''https://api.pstryk.pl/api/meter/'' (bearer sample_lib sample_client),
             refresh_request sample_client]\<rparr>)
   \<and> get_json sample_lib ''https://api.pstryk.pl/api/meter/'' sample_client retry_world
       = (Inr (JArr []), refreshed_client,
          retry_world\<lparr>sent :=
            [GET ''https://api.pstryk.pl/api/meter/'' (bearer sample_lib sample_client),
             refresh_request sample_client,
             GET ''https://api.pstryk.pl/api/meter/'' (bearer sample_lib refreshed_client)]\<rparr>)
   \<and> length (filter is_GET (new_requests retry_world
          (retry_world\<lparr>sent :=
            [GET ''https://api.pstryk.pl/api/meter/'' (bearer sample_lib sample_client),
             refresh_request sample_client,
             GET ''https://api.pstryk.pl/api/meter/'' (bearer sample_lib refreshed_client)]\<rparr>)))
       \<le> 2"
proof -
  let ?url = "''https://api.pstryk.pl/api/meter/''"
  let ?resp = "\<lparr>status = 401, body_text = Inr ''expired'', body_json = Inl JSONDecodeError\<rparr>
                 :: int response"
  let ?g = "GET ?url (bearer sample_lib sample_client) :: int request"
  let ?g2 = "GET ?url (bearer sample_lib refreshed_client) :: int request"
  let ?w2 = "retry_world\<lparr>sent := [?g, refresh_request sample_client]\<rparr>"
  let ?w3 = "retry_world\<lparr>sent := [?g, refresh_request sample_client, ?g2]\<rparr>"
  have tok: "truthy sample_lib (access_token sample_client)"
    by (simp add: client_eval)
  have first: "server retry_world (sent retry_world @ [?g]) = Response ?resp"
    by (simp add: client_eval)
  have refresh: "refresh_access sample_lib (ensure_session sample_client)
         (retry_world\<lparr>sent := sent retry_world @ [?g]\<rparr>) = (Inr (), refreshed_client, ?w2)"
    by (simp add: client_eval)
  have run: "get_json sample_lib ?url sample_client retry_world
       = (Inr (JArr []), refreshed_client, ?w3)"
    by (simp add: client_eval)
  from get_json_retry_once [OF tok first refresh run]
  have "length (filter is_GET (new_requests retry_world ?w3)) \<le> 2" by blast
  with tok first refresh run show ?thesis by blast
qed

lemma refresh_assign_bookkeeping:
  assumes "refresh_assign L data na c = (Inr x, c')"
  shows "access_bookkeeping L c'"
  using assms
  by (auto simp: refresh_assign_def access_bookkeeping_def Let_def split: sum.splits)

lemma login_assign_bookkeeping:
  assumes "login_assign L kvs c = (Inr x, c')"
  shows "access_bookkeeping L c'"
  using assms
  by (auto simp: login_assign_def access_bookkeeping_def Let_def split: sum.splits if_splits)

lemma from_tokens_bookkeeping:
  assumes "from_tokens L a rt u = Inr c'"
  shows "access_token c' = a \<and> access_bookkeeping L c'"
  using assms
  unfolding from_tokens_def Let_def and_then_Inr_iff
  by (auto simp: access_bookkeeping_def init_client_def)

lemma claim_time_absent:
  "map_of kvs k = None \<Longrightarrow> claim_time L (JObj kvs) k = Inr \<lparr>wall = EPOCH, tz = utc\<rparr>"
  by (simp add: claim_time_def py_get_def as_dict_def lookup_def fromtimestamp_def EPOCH_def
      time_consts Let_def)

text \<open>
  C10, as the code has it. After \<^verbatim>\<open>from_tokens\<close>, \<^verbatim>\<open>login\<close> or \<^verbatim>\<open>refresh_access\<close> has
  returned without raising, the stored access token decodes and the fields
  \<^verbatim>\<open>AccessIssuedAt\<close> and \<^verbatim>\<open>AccessExpires\<close> hold the instants of the claims \<^verbatim>\<open>iat\<close> and
  \<^verbatim>\<open>exp\<close> of exactly that token; a claim that the decoded payload does not have gives the
  Unix epoch.
\<close>

theorem access_bookkeeping_after_success:
  "(from_tokens L a rt u = Inr c' \<longrightarrow> access_token c' = a \<and> access_bookkeeping L c')
   \<and> (login L c w = (Inr x, c', w') \<longrightarrow> access_bookkeeping L c')
   \<and> (refresh_access L c w = (Inr x, c', w') \<longrightarrow> access_bookkeeping L c')
   \<and> (\<forall>kvs k. map_of kvs k = None \<longrightarrow>
         claim_time L (JObj kvs) k = Inr \<lparr>wall = EPOCH, tz = utc\<rparr>)"
proof (intro conjI impI allI)
  assume "from_tokens L a rt u = Inr c'"
  from from_tokens_bookkeeping [OF this]
  show "access_token c' = a" "access_bookkeeping L c'" by simp_all
next
  assume "login L c w = (Inr x, c', w')"
  then obtain kvs c0 where "login_assign L kvs c0 = (Inr x, c')"
    by (auto simp: login_def Let_def split: if_splits sum.splits prod.splits)
  then show "access_bookkeeping L c'" by (rule login_assign_bookkeeping)
next
  assume "refresh_access L c w = (Inr x, c', w')"
  then obtain data na c0 where "refresh_assign L data na c0 = (Inr x, c')"
    by (auto simp: refresh_access_def Let_def and_then_Inr_iff
        split: if_splits sum.splits prod.splits)
  then show "access_bookkeeping L c'" by (rule refresh_assign_bookkeeping)
next
  fix kvs :: "(string \<times> 'a json) list" and k
  assume "map_of kvs k = None"
  then show "claim_time L (JObj kvs) k = Inr \<lparr>wall = EPOCH, tz = utc\<rparr>"
    by (rule claim_time_absent)
qed

lemmas login_eval =
  login_def login_assign_def login_reply_def login_except_def str_given_def init_client_def
  from_tokens_def token_def access_bookkeeping_def login_world_def garbage_world_def
  refresh_world_def login_ok_world_def

text \<open>
  The theorem on the sample tokens: the three operations succeed and leave the fields of
  the token they stored; the payload \<^verbatim>\<open>{"sub":"42"}\<close> has no \<^verbatim>\<open>iat\<close> and gives the epoch.
\<close>

theorem access_bookkeeping_after_success_witness:
  "from_tokens sample_lib (JStr access_1) (JStr refresh_1) (JInt 42) = Inr sample_client
   \<and> access_bookkeeping sample_lib sample_client
   \<and> login sample_lib (init_client (Some ''a@b.pl'') (Some ''secret'')) login_ok_world
       = (Inr (),
          sample_client\<lparr>email := Some ''a@b.pl'', password := Some ''secret'', session := True\<rparr>,
          login_ok_world\<lparr>sent := [POST ''https://api.pstryk.pl/auth/token/''
             (JObj [(''email'', JStr ''a@b.pl''), (''password'', JStr ''secret'')])]\<rparr>)
   \<and> access_bookkeeping sample_lib
         (sample_client\<lparr>email := Some ''a@b.pl'', password := Some ''secret'', session := True\<rparr>)
   \<and> refresh_access sample_lib sample_client refresh_world
       = (Inr (), refreshed_client, refresh_world\<lparr>sent := [refresh_request sample_client]\<rparr>)
   \<and> access_bookkeeping sample_lib refreshed_client
   \<and> map_of [(''sub'', JStr ''42'' :: int json)] ''iat'' = None
   \<and> claim_time sample_lib (JObj [(''sub'', JStr ''42'')]) ''iat'' = Inr \<lparr>wall = EPOCH, tz = utc\<rparr>"
proof -
  let ?c = "sample_client\<lparr>email := Some ''a@b.pl'', password := Some ''secret'', session := True\<rparr>"
  let ?w = "login_ok_world\<lparr>sent := [POST ''https://api.pstryk.pl/auth/token/''
             (JObj [(''email'', JStr ''a@b.pl''), (''password'', JStr ''secret'')])]\<rparr>"
  have 1: "from_tokens sample_lib (JStr access_1) (JStr refresh_1) (JInt 42) = Inr sample_client"
    by (simp add: client_eval login_eval)
  have 2: "login sample_lib (init_client (Some ''a@b.pl'') (Some ''secret'')) login_ok_world
       = (Inr (), ?c, ?w)"
    by (simp add: client_eval login_eval)
  have 3: "refresh_access sample_lib sample_client refresh_world
       = (Inr (), refreshed_client, refresh_world\<lparr>sent := [refresh_request sample_client]\<rparr>)"
    by (simp add: client_eval login_eval)
  have 4: "map_of [(''sub'', JStr ''42'' :: int json)] ''iat'' = None" by simp
  note k1 = access_bookkeeping_after_success
    [of sample_lib "JStr access_1" "JStr refresh_1" "JInt 42" sample_client
        "init_client (Some ''a@b.pl'') (Some ''secret'')" login_ok_world "()" ?w]
  note k2 = access_bookkeeping_after_success
    [of sample_lib "JStr access_1" "JStr refresh_1" "JInt 42" ?c
        "init_client (Some ''a@b.pl'') (Some ''secret'')" login_ok_world "()" ?w]
  note k3 = access_bookkeeping_after_success
    [of sample_lib "JStr access_1" "JStr refresh_1" "JInt 42" refreshed_client
        sample_client refresh_world "()" "refresh_world\<lparr>sent := [refresh_request sample_client]\<rparr>"]
  from k1 1 have a: "access_bookkeeping sample_lib sample_client" by blast
  from k2 2 have b: "access_bookkeeping sample_lib ?c" by blast
  from k3 3 have c: "access_bookkeeping sample_lib refreshed_client" by blast
  from k1 4 have d: "claim_time sample_lib (JObj [(''sub'', JStr ''42'')]) ''iat''
                       = Inr \<lparr>wall = EPOCH, tz = utc\<rparr>" by blast
  from 1 2 3 4 a b c d show ?thesis by blast
qed

text \<open>
  The claim as stated fails where an operation raises after the assignment. A login whose
  answer lacks the user id raises, and leaves the new access token with no issued-at
  field. A refresh whose answer carries a token that does not decode raises, and leaves
  that token with the issued-at field of the previous one.
\<close>

theorem access_bookkeeping_counterexample:
  "login sample_lib (init_client (Some ''a@b.pl'') (Some ''secret'')) login_world
     = (Inl (LoginUnexpectedKeys [''access'', ''refresh'']),
        (init_client (Some ''a@b.pl'') (Some ''secret''))
          \<lparr>session := True, refresh_token := JStr refresh_1, access_token := JStr access_1\<rparr>,
        login_world\<lparr>sent := [POST ''https://api.pstryk.pl/auth/token/''
             (JObj [(''email'', JStr ''a@b.pl''), (''password'', JStr ''secret'')])]\<rparr>)
   \<and> AccessIssuedAt ((init_client (Some ''a@b.pl'') (Some ''secret'') :: int client)
          \<lparr>session := True, refresh_token := JStr refresh_1, access_token := JStr access_1\<rparr>)
       = None
   \<and> refresh_access sample_lib sample_client garbage_world
     = (Inl JWTDecodeFailed, sample_client\<lparr>session := True, access_token := JStr ''garbage''\<rparr>,
        garbage_world\<lparr>sent := [refresh_request sample_client]\<rparr>)
   \<and> AccessIssuedAt (sample_client\<lparr>session := True, access_token := JStr ''garbage''\<rparr>)
       = Some \<lparr>wall = 63835596800000000, tz = utc\<rparr>
   \<and> \<not> access_bookkeeping sample_lib
          (sample_client\<lparr>session := True, access_token := JStr ''garbage''\<rparr>)"
  by (simp add: client_eval login_eval)

lemma refresh_access_frame:
  assumes "refresh_access L c w = (Inr x, c', w')"
  shows "refresh_token c' = refresh_token c \<and> RefreshIssuedAt c' = RefreshIssuedAt c
     \<and> RefreshExpires c' = RefreshExpires c \<and> email c' = email c
     \<and> password c' = password c \<and> ep c' = ep c"
proof -
  from assms obtain data na where "refresh_assign L data na (ensure_session c) = (Inr x, c')"
    by (auto simp: refresh_access_def Let_def and_then_Inr_iff
        split: if_splits sum.splits prod.splits)
  from refresh_assign_frame [OF this] show ?thesis by simp
qed

text \<open>
  C2. \<^verbatim>\<open>refresh_access\<close> at a successful response that carries no user id: the client
  built from the sample tokens with the user id 42, and the response
  \<^verbatim>\<open>{"access": ...}\<close>. The call returns, the refresh token and its fields are unchanged
  (\<open>refresh_access_frame\<close>), and the stored user id is overwritten by \<^verbatim>\<open>None\<close>.
\<close>

theorem refresh_access_overwrites_user_id:
  "user_id sample_client = JInt 42
   \<and> refresh_access sample_lib sample_client refresh_world
       = (Inr (), refreshed_client, refresh_world\<lparr>sent := [refresh_request sample_client]\<rparr>)
   \<and> user_id refreshed_client = JNull"
  by (simp add: client_eval login_eval)

section \<open>Properties of the window bounds sent to the provider\<close>

lemma str_replace_Nil: "old \<noteq> [] \<Longrightarrow> str_replace old new [] = []"
  by (subst str_replace.simps) simp

lemma str_replace_skip:
  assumes "old \<noteq> []" and "c \<noteq> hd old"
  shows "str_replace old new (c # s) = c # str_replace old new s"
proof -
  from assms obtain o1 os where o: "old = o1 # os" by (cases old) auto
  with assms have "take (length old) (c # s) \<noteq> old" by auto
  with assms show ?thesis by (subst str_replace.simps) simp
qed

lemma str_replace_suffix:
  assumes "CHR ''+'' \<notin> set p"
  shows "str_replace ''+00:00'' ''Z'' (p @ ''+00:00'') = p @ ''Z''"
  using assms
proof (induction p)
  case Nil
  have "str_replace ''+00:00'' ''Z'' ''+00:00'' = ''Z'' @ str_replace ''+00:00'' ''Z'' []"
    by (subst str_replace.simps) simp
  then show ?case by (simp add: str_replace_Nil)
next
  case (Cons c p)
  then have "c \<noteq> hd ''+00:00''" by auto
  then have "str_replace ''+00:00'' ''Z'' (c # (p @ ''+00:00''))
               = c # str_replace ''+00:00'' ''Z'' (p @ ''+00:00'')"
    by (intro str_replace_skip) simp_all
  with Cons show ?case by simp
qed

lemma digit_char_in: "digit_char n \<in> set ''0123456789''"
  unfolding digit_char_def by (rule nth_mem) simp

lemma digit_char_plain: "digit_char n \<noteq> CHR ''+''" "digit_char n \<noteq> CHR ''.''"
  using digit_char_in [of n] by auto

lemma str_of_nat_plain:
  "CHR ''+'' \<notin> set (str_of_nat n) \<and> CHR ''.'' \<notin> set (str_of_nat n)"
proof (induction n rule: str_of_nat.induct)
  case (1 n)
  show ?case
  proof (cases "n < 10")
    case True
    have "str_of_nat n = [digit_char n]" using True by (subst str_of_nat.simps) simp
    then show ?thesis using digit_char_plain [of n] by simp
  next
    case False
    have "str_of_nat n = str_of_nat (n div 10) @ [digit_char n]"
      using False by (subst str_of_nat.simps) simp
    with 1 [OF False] digit_char_plain [of n] show ?thesis by simp
  qed
qed

lemma str_of_int_plain:
  "CHR ''+'' \<notin> set (str_of_int n) \<and> CHR ''.'' \<notin> set (str_of_int n)"
  by (simp add: str_of_int_def str_of_nat_plain)

lemma zero_pad_plain:
  "CHR ''+'' \<notin> set (zero_pad k n) \<and> CHR ''.'' \<notin> set (zero_pad k n)"
  by (simp add: zero_pad_def Let_def str_of_int_plain)

lemma format_seconds_plain:
  "CHR ''+'' \<notin> set (format_seconds n)" "CHR ''.'' \<notin> set (format_seconds n)"
proof -
  obtain y m d where o: "ord2ymd (n div 86400 + 1) = (y, m, d)" by (metis prod_cases3)
  show "CHR ''+'' \<notin> set (format_seconds n)" "CHR ''.'' \<notin> set (format_seconds n)"
    unfolding format_seconds_def o Let_def prod.case
    by (simp_all add: zero_pad_plain)
qed

lemma zero_pad_2_0: "zero_pad 2 0 = ''00''"
proof -
  have "str_of_nat 0 = ''0''" by (subst str_of_nat.simps) (simp add: digit_char_def)
  then show ?thesis by (simp add: zero_pad_def str_of_int_def Let_def)
qed

lemma format_offset_0: "format_offset 0 = ''+00:00''"
  by (simp add: format_offset_def time_consts zero_pad_2_0 Let_def)

lemma astimezone_utc_result:
  assumes "astimezone_utc dt = Inr u"
  shows "u = \<lparr>wall = wall dt - tz dt (wall dt), tz = utc\<rparr>"
  using assms
  by (auto simp: astimezone_utc_def dt_add_def Let_def split: if_splits sum.splits)

lemma isoformat_utc_seconds:
  "isoformat (replace_microsecond_0 \<lparr>wall = x, tz = utc\<rparr>)
     = Inr (format_seconds (x div US_PER_SECOND) @ ''+00:00'')"
proof -
  have S: "0 < US_PER_SECOND" by (simp add: US_PER_SECOND_def)
  have m: "(x - x mod US_PER_SECOND) mod US_PER_SECOND = 0"
    by (simp add: mod_diff_right_eq)
  have d: "(x - x mod US_PER_SECOND) div US_PER_SECOND = x div US_PER_SECOND"
  proof -
    have "x - x mod US_PER_SECOND = US_PER_SECOND * (x div US_PER_SECOND)"
      by (simp add: minus_mod_eq_mult_div)
    then show ?thesis using S by simp
  qed
  show ?thesis
    by (simp add: isoformat_def replace_microsecond_0_def utc_def m d format_offset_0 Let_def
        US_PER_DAY_def)
qed

lemma iso_utc_eq:
  assumes "astimezone_utc dt = Inr u"
  shows "iso_utc dt = Inr (iso8601_z dt)"
  using assms astimezone_utc_result [OF assms]
  by (simp add: iso_utc_def isoformat_utc_seconds iso8601_z_def format_seconds_plain
      str_replace_suffix)

lemma get_json_retry_sent:
  assumes "get_json_retry L url c w = (r, c', w')"
  shows "sent w' = sent w \<or> (\<exists>h. sent w' = sent w @ [GET url h])"
  using assms
  by (auto simp: get_json_retry_def send_def Let_def
      split: sum.splits reply.splits if_splits)

lemma get_only_simps [simp]:
  "get_only url []" "get_only url (GET u h # xs) \<longleftrightarrow> u = url \<and> get_only url xs"
  "get_only url (POST u b # xs) \<longleftrightarrow> get_only url xs"
  "get_only url (xs @ ys) \<longleftrightarrow> get_only url xs \<and> get_only url ys"
  by (auto simp: get_only_def is_GET_def request_url_def)

lemma get_json_sent:
  assumes "get_json L url c w = (r, c', w')"
  shows "\<exists>xs. sent w' = sent w @ xs \<and> get_only url xs"
proof (cases "auth_headers L (ensure_session c)")
  case (Inl e)
  with assms show ?thesis by (simp add: get_json_def Let_def)
next
  case (Inr h)
  let ?w1 = "w\<lparr>sent := sent w @ [GET url h]\<rparr>"
  show ?thesis
  proof (cases "server w (sent w @ [GET url h])")
    case (Raises e)
    with assms Inr have "sent w' = sent w @ [GET url h]"
      by (auto simp: get_json_def send_def Let_def)
    then show ?thesis by simp
  next
    case (Response resp)
    show ?thesis
    proof (cases "status resp \<noteq> 401")
      case True
      with assms Inr Response have "sent w' = sent w @ [GET url h]"
        by (auto simp: get_json_def send_def Let_def split: if_splits)
      then show ?thesis by simp
    next
      case False
      obtain r1 c1 w2 where rf: "refresh_access L (ensure_session c) ?w1 = (r1, c1, w2)"
        by (metis prod_cases3)
      from refresh_access_world [OF rf]
      have s2: "sent w2 = sent w @ [GET url h]
                \<or> sent w2 = sent w @ [GET url h, refresh_request (ensure_session c)]"
        by auto
      show ?thesis
      proof (cases r1)
        case (Inl e)
        with assms Inr Response False rf have "w' = w2"
          by (simp add: get_json_def send_def Let_def)
        with s2 show ?thesis by (auto simp: refresh_request_def)
      next
        case r: (Inr u)
        with assms Inr Response False rf have "get_json_retry L url c1 w2 = (r, c', w')"
          by (simp add: get_json_def send_def Let_def)
        from get_json_retry_sent [OF this] s2 show ?thesis
          by (auto simp: refresh_request_def)
      qed
    qed
  qed
qed

lemma get_json_new_requests:
  assumes "get_json L url c w = (r, c', w')"
  shows "get_only url (new_requests w w')"
  using get_json_sent [OF assms] by (auto simp: new_requests_def)

lemma get_json_first:
  assumes tok: "truthy L (access_token c)"
    and run: "get_json L url c w = (r, c', w')"
  shows "\<exists>rest. new_requests w w' = GET url (bearer L c) # rest"
proof -
  have h: "auth_headers L (ensure_session c) = Inr (bearer L c)"
    using tok by (simp add: auth_headers_def bearer_def ensure_session_def)
  let ?w1 = "w\<lparr>sent := sent w @ [GET url (bearer L c)]\<rparr>"
  have "\<exists>rest. sent w' = sent w @ GET url (bearer L c) # rest"
  proof (cases "server w (sent w @ [GET url (bearer L c)])")
    case (Raises e)
    with run h have "sent w' = sent w @ [GET url (bearer L c)]"
      by (auto simp: get_json_def send_def Let_def)
    then show ?thesis by simp
  next
    case (Response resp)
    show ?thesis
    proof (cases "status resp \<noteq> 401")
      case True
      with run h Response have "sent w' = sent w @ [GET url (bearer L c)]"
        by (auto simp: get_json_def send_def Let_def split: if_splits)
      then show ?thesis by simp
    next
      case False
      obtain r1 c1 w2 where rf: "refresh_access L (ensure_session c) ?w1 = (r1, c1, w2)"
        by (metis prod_cases3)
      from refresh_access_world [OF rf]
      have s2: "\<exists>xs. sent w2 = sent w @ GET url (bearer L c) # xs"
        by auto
      show ?thesis
      proof (cases r1)
        case (Inl e)
        with run h Response False rf have "w' = w2"
          by (simp add: get_json_def send_def Let_def)
        with s2 show ?thesis by simp
      next
        case r: (Inr u)
        with run h Response False rf have "get_json_retry L url c1 w2 = (r, c', w')"
          by (simp add: get_json_def send_def Let_def)
        from get_json_retry_sent [OF this] s2 show ?thesis
          by auto
      qed
    qed
  qed
  then show ?thesis by (auto simp: new_requests_def)
qed

text \<open>
  Each of the six query methods sends nothing without an access token. With one, its
  first request is the GET, with the bearer token, to the URL built from the two rendered
  bounds, and every later GET (the one retry) goes to the same URL.
\<close>

lemma get_pricing_buy_sends:
  assumes "astimezone_utc ws = Inr a" and "astimezone_utc we = Inr b"
    and "get_pricing_buy L mid ws we res c w = (r, c', w')"
  shows "get_only (pricing_buy (ep c) @ ''?'' @ urlencode L
            [(''meter_id'', mid), (''window_start'', JStr (iso8601_z ws)),
             (''window_end'', JStr (iso8601_z we)), (''resolution'', JStr res)])
       (new_requests w w')
     \<and> (truthy L (access_token c) \<longrightarrow>
          (\<exists>rest. new_requests w w'
             = GET (pricing_buy (ep c) @ ''?'' @ urlencode L
            [(''meter_id'', mid), (''window_start'', JStr (iso8601_z ws)),
             (''window_end'', JStr (iso8601_z we)), (''resolution'', JStr res)])
                 (bearer L c) # rest))"
proof (cases "truthy L (access_token c)")
  case False
  with assms show ?thesis by (simp add: get_pricing_buy_def new_requests_def)
next
  case True
  with assms(3) obtain r0 where g: "get_json L (pricing_buy (ep c) @ ''?'' @ urlencode L
            [(''meter_id'', mid), (''window_start'', JStr (iso8601_z ws)),
             (''window_end'', JStr (iso8601_z we)), (''resolution'', JStr res)]) c w
         = (r0, c', w')"
    unfolding get_pricing_buy_def iso_utc_eq [OF assms(1)] iso_utc_eq [OF assms(2)] Let_def
    by (auto split: prod.splits)
  from get_json_new_requests [OF g] get_json_first [OF True g] show ?thesis by blast
qed

lemma get_pricing_sell_sends:
  assumes "astimezone_utc ws = Inr a" and "astimezone_utc we = Inr b"
    and "get_pricing_sell L ws we res c w = (r, c', w')"
  shows "get_only (pricing_sell (ep c) @ ''?'' @ urlencode L
            [(''window_start'', JStr (iso8601_z ws)),
             (''window_end'', JStr (iso8601_z we)), (''resolution'', JStr res)])
       (new_requests w w')
     \<and> (truthy L (access_token c) \<longrightarrow>
          (\<exists>rest. new_requests w w'
             = GET (pricing_sell (ep c) @ ''?'' @ urlencode L
            [(''window_start'', JStr (iso8601_z ws)),
             (''window_end'', JStr (iso8601_z we)), (''resolution'', JStr res)])
                 (bearer L c) # rest))"
proof (cases "truthy L (access_token c)")
  case False
  with assms show ?thesis by (simp add: get_pricing_sell_def new_requests_def)
next
  case True
  with assms(3) obtain r0 where g: "get_json L (pricing_sell (ep c) @ ''?'' @ urlencode L
            [(''window_start'', JStr (iso8601_z ws)),
             (''window_end'', JStr (iso8601_z we)), (''resolution'', JStr res)]) c w
         = (r0, c', w')"
    unfolding get_pricing_sell_def iso_utc_eq [OF assms(1)] iso_utc_eq [OF assms(2)] Let_def
    by (auto split: prod.splits)
  from get_json_new_requests [OF g] get_json_first [OF True g] show ?thesis by blast
qed

lemma get_power_usage_hourly_sends:
  assumes "astimezone_utc ws = Inr a" and "astimezone_utc we = Inr b"
    and "get_power_usage_hourly L mid ws we res c w = (r, c', w')"
  shows "get_only (power_usage L (ep c) mid @ ''?'' @ urlencode L
            [(''resolution'', JStr res), (''window_start'', JStr (iso8601_z ws)),
             (''window_end'', JStr (iso8601_z we))])
       (new_requests w w')
     \<and> (truthy L (access_token c) \<longrightarrow>
          (\<exists>rest. new_requests w w'
             = GET (power_usage L (ep c) mid @ ''?'' @ urlencode L
            [(''resolution'', JStr res), (''window_start'', JStr (iso8601_z ws)),
             (''window_end'', JStr (iso8601_z we))])
                 (bearer L c) # rest))"
proof (cases "truthy L (access_token c)")
  case False
  with assms show ?thesis by (simp add: get_power_usage_hourly_def new_requests_def)
next
  case True
  with assms(3) obtain r0 where g: "get_json L (power_usage L (ep c) mid @ ''?'' @ urlencode L
            [(''resolution'', JStr res), (''window_start'', JStr (iso8601_z ws)),
             (''window_end'', JStr (iso8601_z we))]) c w
         = (r0, c', w')"
    unfolding get_power_usage_hourly_def iso_utc_eq [OF assms(1)] iso_utc_eq [OF assms(2)] Let_def
    by (auto split: prod.splits)
  from get_json_new_requests [OF g] get_json_first [OF True g] show ?thesis by blast
qed

lemma get_power_usage_day_sends:
  assumes "astimezone_utc ws = Inr a" and "astimezone_utc we = Inr b"
    and "get_power_usage_day L mid ws we res c w = (r, c', w')"
  shows "get_only (power_usage L (ep c) mid @ ''?'' @ urlencode L
            [(''resolution'', JStr res), (''window_start'', JStr (iso8601_z ws)),
             (''window_end'', JStr (iso8601_z we))])
       (new_requests w w')
     \<and> (truthy L (access_token c) \<longrightarrow>
          (\<exists>rest. new_requests w w'
             = GET (power_usage L (ep c) mid @ ''?'' @ urlencode L
            [(''resolution'', JStr res), (''window_start'', JStr (iso8601_z ws)),
             (''window_end'', JStr (iso8601_z we))])
                 (bearer L c) # rest))"
proof (cases "truthy L (access_token c)")
  case False
  with assms show ?thesis by (simp add: get_power_usage_day_def new_requests_def)
next
  case True
  with assms(3) obtain r0 where g: "get_json L (power_usage L (ep c) mid @ ''?'' @ urlencode L
            [(''resolution'', JStr res), (''window_start'', JStr (iso8601_z ws)),
             (''window_end'', JStr (iso8601_z we))]) c w
         = (r0, c', w')"
    unfolding get_power_usage_day_def iso_utc_eq [OF assms(1)] iso_utc_eq [OF assms(2)] Let_def
    by (auto split: prod.splits)
  from get_json_new_requests [OF g] get_json_first [OF True g] show ?thesis by blast
qed

lemma get_power_cost_hourly_sends:
  assumes "astimezone_utc ws = Inr a" and "astimezone_utc we = Inr b"
    and "get_power_cost_hourly L mid ws we res c w = (r, c', w')"
  shows "get_only (power_cost L (ep c) mid @ ''?'' @ urlencode L
            [(''resolution'', JStr res), (''window_start'', JStr (iso8601_z ws)),
             (''window_end'', JStr (iso8601_z we))])
       (new_requests w w')
     \<and> (truthy L (access_token c) \<longrightarrow>
          (\<exists>rest. new_requests w w'
             = GET (power_cost L (ep c) mid @ ''?'' @ urlencode L
            [(''resolution'', JStr res), (''window_start'', JStr (iso8601_z ws)),
             (''window_end'', JStr (iso8601_z we))])
                 (bearer L c) # rest))"
proof (cases "truthy L (access_token c)")
  case False
  with assms show ?thesis by (simp add: get_power_cost_hourly_def new_requests_def)
next
  case True
  with assms(3) obtain r0 where g: "get_json L (power_cost L (ep c) mid @ ''?'' @ urlencode L
            [(''resolution'', JStr res), (''window_start'', JStr (iso8601_z ws)),
             (''window_end'', JStr (iso8601_z we))]) c w
         = (r0, c', w')"
    unfolding get_power_cost_hourly_def iso_utc_eq [OF assms(1)] iso_utc_eq [OF assms(2)] Let_def
    by (auto split: prod.splits)
  from get_json_new_requests [OF g] get_json_first [OF True g] show ?thesis by blast
qed

lemma get_power_cost_day_sends:
  assumes "astimezone_utc ws = Inr a" and "astimezone_utc we = Inr b"
    and "get_power_cost_day L mid ws we res c w = (r, c', w')"
  shows "get_only (power_cost L (ep c) mid @ ''?'' @ urlencode L
            [(''resolution'', JStr res), (''window_start'', JStr (iso8601_z ws)),
             (''window_end'', JStr (iso8601_z we))])
       (new_requests w w')
     \<and> (truthy L (access_token c) \<longrightarrow>
          (\<exists>rest. new_requests w w'
             = GET (power_cost L (ep c) mid @ ''?'' @ urlencode L
            [(''resolution'', JStr res), (''window_start'', JStr (iso8601_z ws)),
             (''window_end'', JStr (iso8601_z we))])
                 (bearer L c) # rest))"
proof (cases "truthy L (access_token c)")
  case False
  with assms show ?thesis by (simp add: get_power_cost_day_def new_requests_def)
next
  case True
  with assms(3) obtain r0 where g: "get_json L (power_cost L (ep c) mid @ ''?'' @ urlencode L
            [(''resolution'', JStr res), (''window_start'', JStr (iso8601_z ws)),
             (''window_end'', JStr (iso8601_z we))]) c w
         = (r0, c', w')"
    unfolding get_power_cost_day_def iso_utc_eq [OF assms(1)] iso_utc_eq [OF assms(2)] Let_def
    by (auto split: prod.splits)
  from get_json_new_requests [OF g] get_json_first [OF True g] show ?thesis by blast
qed

text \<open>
  C9. For a datetime that converts to UTC, \<^verbatim>\<open>iso_utc\<close> gives the UTC instant as
  \<^verbatim>\<open>YYYY-MM-DDTHH:MM:SS\<close> followed by \<^verbatim>\<open>Z\<close>: the fraction of the second is dropped, and
  there is no \<^verbatim>\<open>+00:00\<close> left. Each of the six query methods (buy and sell pricing,
  hourly and daily usage, hourly and daily cost) puts these two strings into the
  \<^verbatim>\<open>window_start\<close> and \<^verbatim>\<open>window_end\<close> parameters of its URL: every GET of the call goes to
  that URL, and when the client has an access token the first request of the call is the
  GET to it.
\<close>

theorem window_bounds_iso8601:
  assumes ws: "astimezone_utc ws = Inr a" and we: "astimezone_utc we = Inr b"
  shows "iso_utc ws = Inr (iso8601_z ws) \<and> iso_utc we = Inr (iso8601_z we)
     \<and> CHR ''.'' \<notin> set (iso8601_z ws) \<and> CHR ''+'' \<notin> set (iso8601_z ws)
     \<and> last (iso8601_z ws) = CHR ''Z''
     \<and> CHR ''.'' \<notin> set (iso8601_z we) \<and> CHR ''+'' \<notin> set (iso8601_z we)
     \<and> last (iso8601_z we) = CHR ''Z''
     \<and> (get_pricing_buy L mid ws we res c w = (r1, c1, w1) \<longrightarrow>
          get_only (pricing_buy (ep c) @ ''?'' @ urlencode L
            [(''meter_id'', mid), (''window_start'', JStr (iso8601_z ws)),
             (''window_end'', JStr (iso8601_z we)), (''resolution'', JStr res)])
            (new_requests w w1)
          \<and> (truthy L (access_token c) \<longrightarrow>
               (\<exists>rest. new_requests w w1
                  = GET (pricing_buy (ep c) @ ''?'' @ urlencode L
            [(''meter_id'', mid), (''window_start'', JStr (iso8601_z ws)),
             (''window_end'', JStr (iso8601_z we)), (''resolution'', JStr res)])
                      (bearer L c) # rest)))
     \<and> (get_pricing_sell L ws we res c w = (r2, c2, w2) \<longrightarrow>
          get_only (pricing_sell (ep c) @ ''?'' @ urlencode L
            [(''window_start'', JStr (iso8601_z ws)),
             (''window_end'', JStr (iso8601_z we)), (''resolution'', JStr res)])
            (new_requests w w2)
          \<and> (truthy L (access_token c) \<longrightarrow>
               (\<exists>rest. new_requests w w2
                  = GET (pricing_sell (ep c) @ ''?'' @ urlencode L
            [(''window_start'', JStr (iso8601_z ws)),
             (''window_end'', JStr (iso8601_z we)), (''resolution'', JStr res)])
                      (bearer L c) # rest)))
     \<and> (get_power_usage_hourly L mid ws we res c w = (r3, c3, w3) \<longrightarrow>
          get_only (power_usage L (ep c) mid @ ''?'' @ urlencode L
            [(''resolution'', JStr res), (''window_start'', JStr (iso8601_z ws)),
             (''window_end'', JStr (iso8601_z we))])
            (new_requests w w3)
          \<and> (truthy L (access_token c) \<longrightarrow>
               (\<exists>rest. new_requests w w3
                  = GET (power_usage L (ep c) mid @ ''?'' @ urlencode L
            [(''resolution'', JStr res), (''window_start'', JStr (iso8601_z ws)),
             (''window_end'', JStr (iso8601_z we))])
                      (bearer L c) # rest)))
     \<and> (get_power_usage_day L mid ws we res c w = (r4, c4, w4) \<longrightarrow>
          get_only (power_usage L (ep c) mid @ ''?'' @ urlencode L
            [(''resolution'', JStr res), (''window_start'', JStr (iso8601_z ws)),
             (''window_end'', JStr (iso8601_z we))])
            (new_requests w w4)
          \<and> (truthy L (access_token c) \<longrightarrow>
               (\<exists>rest. new_requests w w4
                  = GET (power_usage L (ep c) mid @ ''?'' @ urlencode L
            [(''resolution'', JStr res), (''window_start'', JStr (iso8601_z ws)),
             (''window_end'', JStr (iso8601_z we))])
                      (bearer L c) # rest)))
     \<and> (get_power_cost_hourly L mid ws we res c w = (r5, c5, w5) \<longrightarrow>
          get_only (power_cost L (ep c) mid @ ''?'' @ urlencode L
            [(''resolution'', JStr res), (''window_start'', JStr (iso8601_z ws)),
             (''window_end'', JStr (iso8601_z we))])
            (new_requests w w5)
          \<and> (truthy L (access_token c) \<longrightarrow>
               (\<exists>rest. new_requests w w5
                  = GET (power_cost L (ep c) mid @ ''?'' @ urlencode L
            [(''resolution'', JStr res), (''window_start'', JStr (iso8601_z ws)),
             (''window_end'', JStr (iso8601_z we))])
                      (bearer L c) # rest)))
     \<and> (get_power_cost_day L mid ws we res c w = (r6, c6, w6) \<longrightarrow>
          get_only (power_cost L (ep c) mid @ ''?'' @ urlencode L
            [(''resolution'', JStr res), (''window_start'', JStr (iso8601_z ws)),
             (''window_end'', JStr (iso8601_z we))])
            (new_requests w w6)
          \<and> (truthy L (access_token c) \<longrightarrow>
               (\<exists>rest. new_requests w w6
                  = GET (power_cost L (ep c) mid @ ''?'' @ urlencode L
            [(''resolution'', JStr res), (''window_start'', JStr (iso8601_z ws)),
             (''window_end'', JStr (iso8601_z we))])
                      (bearer L c) # rest)))"
proof -
  have p: "CHR ''.'' \<notin> set (iso8601_z ws) \<and> CHR ''+'' \<notin> set (iso8601_z ws)
     \<and> last (iso8601_z ws) = CHR ''Z''"
    by (simp add: iso8601_z_def format_seconds_plain)
  have q: "CHR ''.'' \<notin> set (iso8601_z we) \<and> CHR ''+'' \<notin> set (iso8601_z we)
     \<and> last (iso8601_z we) = CHR ''Z''"
    by (simp add: iso8601_z_def format_seconds_plain)
  show ?thesis
    apply (intro conjI impI)
    subgoal by (rule iso_utc_eq [OF ws])
    subgoal by (rule iso_utc_eq [OF we])
    subgoal using p by blast
    subgoal using p by blast
    subgoal using p by blast
    subgoal using q by blast
    subgoal using q by blast
    subgoal using q by blast
    subgoal using get_pricing_buy_sends [OF ws we] by blast
    subgoal using get_pricing_buy_sends [OF ws we] by blast
    subgoal using get_pricing_sell_sends [OF ws we] by blast
    subgoal using get_pricing_sell_sends [OF ws we] by blast
    subgoal using get_power_usage_hourly_sends [OF ws we] by blast
    subgoal using get_power_usage_hourly_sends [OF ws we] by blast
    subgoal using get_power_usage_day_sends [OF ws we] by blast
    subgoal using get_power_usage_day_sends [OF ws we] by blast
    subgoal using get_power_cost_hourly_sends [OF ws we] by blast
    subgoal using get_power_cost_hourly_sends [OF ws we] by blast
    subgoal using get_power_cost_day_sends [OF ws we] by blast
    subgoal using get_power_cost_day_sends [OF ws we] by blast
    done
qed

text \<open>
  The theorem at the bounds of the inclusive-millisecond window of 2025-03-29, given in
  local time: 2025-03-29T00:00:00+01:00 is sent as \<^verbatim>\<open>2025-03-28T23:00:00Z\<close> and
  2025-03-29T23:59:59.999+01:00 as \<^verbatim>\<open>2025-03-29T22:59:59Z\<close>, by each of the six methods.
\<close>

theorem window_bounds_iso8601_witness:
  "astimezone_utc \<lparr>wall = 63878803200000000, tz = warsaw_2025\<rparr> = Inr sample_usage_start
   \<and> astimezone_utc \<lparr>wall = 63878889599999000, tz = warsaw_2025\<rparr> = Inr sample_usage_end
   \<and> truthy sample_lib (access_token sample_client)
   \<and> iso_utc \<lparr>wall = 63878803200000000, tz = warsaw_2025\<rparr> = Inr ''2025-03-28T23:00:00Z''
   \<and> iso_utc \<lparr>wall = 63878889599999000, tz = warsaw_2025\<rparr> = Inr ''2025-03-29T22:59:59Z''
   \<and> new_requests empty_object_world
        (snd (snd (get_pricing_buy sample_lib (JInt 7) 
          \<lparr>wall = 63878803200000000, tz = warsaw_2025\<rparr> 
          \<lparr>wall = 63878889599999000, tz = warsaw_2025\<rparr> ''hour'' sample_client empty_object_world)))
       = [GET ''https://api.pstryk.pl/api/pricing/?meter_id=7&window_start=2025-03-28T23%3A00%3A00Z&window_end=2025-03-29T22%3A59%3A59Z&resolution=hour''
            (bearer sample_lib sample_client)]
   \<and> new_requests empty_object_world
        (snd (snd (get_pricing_sell sample_lib 
          \<lparr>wall = 63878803200000000, tz = warsaw_2025\<rparr> 
          \<lparr>wall = 63878889599999000, tz = warsaw_2025\<rparr> ''hour'' sample_client empty_object_world)))
       = [GET ''https://api.pstryk.pl/api/prosumer-pricing/?window_start=2025-03-28T23%3A00%3A00Z&window_end=2025-03-29T22%3A59%3A59Z&resolution=hour''
            (bearer sample_lib sample_client)]
   \<and> new_requests empty_object_world
        (snd (snd (get_power_usage_hourly sample_lib (JInt 7) 
          \<lparr>wall = 63878803200000000, tz = warsaw_2025\<rparr> 
          \<lparr>wall = 63878889599999000, tz = warsaw_2025\<rparr> ''hour'' sample_client empty_object_world)))
       = [GET ''https://api.pstryk.pl/api/meter-data/7/power-usage/?resolution=hour&window_start=2025-03-28T23%3A00%3A00Z&window_end=2025-03-29T22%3A59%3A59Z''
            (bearer sample_lib sample_client)]
   \<and> new_requests empty_object_world
        (snd (snd (get_power_usage_day sample_lib (JInt 7) 
          \<lparr>wall = 63878803200000000, tz = warsaw_2025\<rparr> 
          \<lparr>wall = 63878889599999000, tz = warsaw_2025\<rparr> ''hour'' sample_client empty_object_world)))
       = [GET ''https://api.pstryk.pl/api/meter-data/7/power-usage/?resolution=hour&window_start=2025-03-28T23%3A00%3A00Z&window_end=2025-03-29T22%3A59%3A59Z''
            (bearer sample_lib sample_client)]
   \<and> new_requests empty_object_world
        (snd (snd (get_power_cost_hourly sample_lib (JInt 7) 
          \<lparr>wall = 63878803200000000, tz = warsaw_2025\<rparr> 
          \<lparr>wall = 63878889599999000, tz = warsaw_2025\<rparr> ''hour'' sample_client empty_object_world)))
       = [GET ''https://api.pstryk.pl/api/meter-data/7/power-cost/?resolution=hour&window_start=2025-03-28T23%3A00%3A00Z&window_end=2025-03-29T22%3A59%3A59Z''
            (bearer sample_lib sample_client)]
   \<and> new_requests empty_object_world
        (snd (snd (get_power_cost_day sample_lib (JInt 7) 
          \<lparr>wall = 63878803200000000, tz = warsaw_2025\<rparr> 
          \<lparr>wall = 63878889599999000, tz = warsaw_2025\<rparr> ''hour'' sample_client empty_object_world)))
       = [GET ''https://api.pstryk.pl/api/meter-data/7/power-cost/?resolution=hour&window_start=2025-03-28T23%3A00%3A00Z&window_end=2025-03-29T22%3A59%3A59Z''
            (bearer sample_lib sample_client)]"
proof -
  let ?ws = "\<lparr>wall = 63878803200000000, tz = warsaw_2025\<rparr>"
  let ?we = "\<lparr>wall = 63878889599999000, tz = warsaw_2025\<rparr>"
  let ?run1 = "get_pricing_buy sample_lib (JInt 7) ?ws ?we ''hour'' sample_client empty_object_world"
  let ?run2 = "get_pricing_sell sample_lib ?ws ?we ''hour'' sample_client empty_object_world"
  let ?run3 = "get_power_usage_hourly sample_lib (JInt 7) ?ws ?we ''hour'' sample_client empty_object_world"
  let ?run4 = "get_power_usage_day sample_lib (JInt 7) ?ws ?we ''hour'' sample_client empty_object_world"
  let ?run5 = "get_power_cost_hourly sample_lib (JInt 7) ?ws ?we ''hour'' sample_client empty_object_world"
  let ?run6 = "get_power_cost_day sample_lib (JInt 7) ?ws ?we ''hour'' sample_client empty_object_world"
  have a: "astimezone_utc ?ws = Inr sample_usage_start"
    by (simp add: astimezone_utc_def dt_add_def sample_usage_start_def utc_def warsaw_2025_def
        time_consts)
  have b: "astimezone_utc ?we = Inr sample_usage_end"
    by (simp add: astimezone_utc_def dt_add_def sample_usage_end_def utc_def warsaw_2025_def
        time_consts)
  have t: "truthy sample_lib (access_token sample_client)"
    by code_simp
  have s: "iso8601_z ?ws = ''2025-03-28T23:00:00Z''"
    by code_simp
  have e: "iso8601_z ?we = ''2025-03-29T22:59:59Z''"
    by code_simp
  have m1: "new_requests empty_object_world (snd (snd ?run1))
       = [GET ''https://api.pstryk.pl/api/pricing/?meter_id=7&window_start=2025-03-28T23%3A00%3A00Z&window_end=2025-03-29T22%3A59%3A59Z&resolution=hour''
            (bearer sample_lib sample_client)]"
    by code_simp
  have m2: "new_requests empty_object_world (snd (snd ?run2))
       = [GET ''https://api.pstryk.pl/api/prosumer-pricing/?window_start=2025-03-28T23%3A00%3A00Z&window_end=2025-03-29T22%3A59%3A59Z&resolution=hour''
            (bearer sample_lib sample_client)]"
    by code_simp
  have m3: "new_requests empty_object_world (snd (snd ?run3))
       = [GET ''https://api.pstryk.pl/api/meter-data/7/power-usage/?resolution=hour&window_start=2025-03-28T23%3A00%3A00Z&window_end=2025-03-29T22%3A59%3A59Z''
            (bearer sample_lib sample_client)]"
    by code_simp
  have m4: "new_requests empty_object_world (snd (snd ?run4))
       = [GET ''https://api.pstryk.pl/api/meter-data/7/power-usage/?resolution=hour&window_start=2025-03-28T23%3A00%3A00Z&window_end=2025-03-29T22%3A59%3A59Z''
            (bearer sample_lib sample_client)]"
    by code_simp
  have m5: "new_requests empty_object_world (snd (snd ?run5))
       = [GET ''https://api.pstryk.pl/api/meter-data/7/power-cost/?resolution=hour&window_start=2025-03-28T23%3A00%3A00Z&window_end=2025-03-29T22%3A59%3A59Z''
            (bearer sample_lib sample_client)]"
    by code_simp
  have m6: "new_requests empty_object_world (snd (snd ?run6))
       = [GET ''https://api.pstryk.pl/api/meter-data/7/power-cost/?resolution=hour&window_start=2025-03-28T23%3A00%3A00Z&window_end=2025-03-29T22%3A59%3A59Z''
            (bearer sample_lib sample_client)]"
    by code_simp
  note T = window_bounds_iso8601 [OF a b, where L = sample_lib and mid = "JInt 7"
      and res = "''hour''" and c = sample_client and w = empty_object_world
      and ?r1.0 = "fst ?run1" and ?c1.0 = "fst (snd ?run1)" and ?w1.0 = "snd (snd ?run1)"
      and ?r2.0 = "fst ?run2" and ?c2.0 = "fst (snd ?run2)" and ?w2.0 = "snd (snd ?run2)"
      and ?r3.0 = "fst ?run3" and ?c3.0 = "fst (snd ?run3)" and ?w3.0 = "snd (snd ?run3)"
      and ?r4.0 = "fst ?run4" and ?c4.0 = "fst (snd ?run4)" and ?w4.0 = "snd (snd ?run4)"
      and ?r5.0 = "fst ?run5" and ?c5.0 = "fst (snd ?run5)" and ?w5.0 = "snd (snd ?run5)"
      and ?r6.0 = "fst ?run6" and ?c6.0 = "fst (snd ?run6)" and ?w6.0 = "snd (snd ?run6)"]
  note k = T [THEN conjunct1] T [THEN conjunct2, THEN conjunct1]
  from a b t k m1 m2 m3 m4 m5 m6 show ?thesis unfolding s e by blast
qed

section \<open>Properties of the decoders\<close>




lemma frame_f_cases:
  "(py_float L x = Inr v \<longrightarrow> frame_f L x = JFloat v)
   \<and> (py_float L x = Inl e \<longrightarrow>
        frame_f L x = (if x = JNull \<or> x = JStr [] then JFloat (zero_float L) else x))"
  by (simp add: frame_f_def)

lemma day_f_cases:
  "(py_float L x = Inr v \<longrightarrow> day_f L x = JFloat v)
   \<and> (py_float L x = Inl e \<longrightarrow> day_f L x = x)"
  by (simp add: day_f_def)

lemma py_float_JNull: "py_float L JNull = Inl PyTypeError"
  by (simp add: py_float_def)




lemma float_or_0_missing:
  assumes "float_of_int L 0 = Some z" and "map_of kvs k = None"
  shows "float_or_0 L kvs k = Inr z"
  using assms by (simp add: float_or_0_def py_or_def py_float_def lookup_def truthy_def)















end
